theory Spec2Isabelle
  imports Complex_Main "HOL-Library.Sublist"
begin

text \<open>
  A model of the Solana AI Assistant browser extension: the assistant of the background
  service worker (\<^verbatim>\<open>background.ts\<close>: settings, tool discovery, prompt builders, the
  summarize and the chat operation, the message handlers) and the chat panel of the
  content script. The model service, the tool service and the browser storage are
  parameters, and every call to them is recorded in a trace.
\<close>

section \<open>Strings and property lookup\<close>

text \<open>
  Text is a \<^typ>\<open>string\<close>; a character outside ASCII is written as the bytes of its
  UTF-8 encoding. None of the properties below counts characters: they only concatenate
  and compare text.

  The prompt tables of \<^verbatim>\<open>background.ts\<close> are object literals read with
  \<^verbatim>\<open>table[key] || table['en-US']\<close>. Reading a property of an object literal
  also finds the members inherited from \<^verbatim>\<open>Object.prototype\<close>, so the value read is
  either one of the literal's own strings or an inherited built-in (a function, or for
  \<^verbatim>\<open>__proto__\<close> the prototype object itself), which is not a string and is truthy.
\<close>

datatype js_value = Str string | Builtin string

text \<open>The names of the members of \<^verbatim>\<open>Object.prototype\<close>.\<close>

definition Object_prototype_keys :: "string list" where
  "Object_prototype_keys =
     [''constructor'', ''__defineGetter__'', ''__defineSetter__'', ''hasOwnProperty'',
      ''__lookupGetter__'', ''__lookupSetter__'', ''isPrototypeOf'', ''propertyIsEnumerable'',
      ''toString'', ''valueOf'', ''__proto__'', ''toLocaleString'']"

text \<open>\<^verbatim>\<open>obj[key]\<close> on an object literal with the own properties \<open>own\<close>;
  \<open>None\<close> is \<^verbatim>\<open>undefined\<close>.\<close>

definition get_property :: "(string \<times> string) list \<Rightarrow> string \<Rightarrow> js_value option" where
  "get_property own key =
     (case map_of own key of
        Some v \<Rightarrow> Some (Str v)
      | None \<Rightarrow> if key \<in> set Object_prototype_keys then Some (Builtin key) else None)"

fun truthy :: "js_value \<Rightarrow> bool" where
  "truthy (Str s) = (s \<noteq> [])"
| "truthy (Builtin k) = True"

text \<open>\<^verbatim>\<open>a || b\<close>, where \<open>b\<close> is defined.\<close>

definition js_or :: "js_value option \<Rightarrow> js_value \<Rightarrow> js_value" where
  "js_or a b = (case a of Some v \<Rightarrow> if truthy v then v else b | None \<Rightarrow> b)"

text \<open>\<^verbatim>\<open>a + b\<close> where each operand is a string or an object: an object is
  converted to its primitive, a string (the runtime's rendering of the built-in, given by
  \<open>render\<close>), and the two strings are concatenated.\<close>

fun to_primitive :: "(string \<Rightarrow> string) \<Rightarrow> js_value \<Rightarrow> string" where
  "to_primitive render (Str s) = s"
| "to_primitive render (Builtin k) = render k"

definition js_plus :: "(string \<Rightarrow> string) \<Rightarrow> js_value \<Rightarrow> js_value \<Rightarrow> string" where
  "js_plus render a b = to_primitive render a @ to_primitive render b"

text \<open>\<^verbatim>\<open>xs.join(sep)\<close> on an array of strings.\<close>

fun join :: "string \<Rightarrow> string list \<Rightarrow> string" where
  "join sep [] = []"
| "join sep [x] = x"
| "join sep (x # y # ys) = x @ sep @ join sep (y # ys)"

section \<open>Prompt templates\<close>

text \<open>The literal pieces of the template strings of \<^verbatim>\<open>getTransactionSummaryPrompt\<close>
  (\<open>summary_\<close>), \<^verbatim>\<open>getChatPrompt\<close> (\<open>chat_\<close>) and \<^verbatim>\<open>finalPromptAdditions\<close>
  (\<open>addition_\<close>), in source order, cut at the interpolations.\<close>

definition summary_zh_CN_1 :: string where
  "summary_zh_CN_1 =
     [CHR 0xE8, CHR 0xAF, CHR 0xB7, CHR 0xE5, CHR 0x88, CHR 0x86, CHR 0xE6, CHR 0x9E, CHR 0x90,
      CHR 0xE8, CHR 0xBF, CHR 0x99, CHR 0xE4, CHR 0xB8, CHR 0xAA] @
     ''Solana'' @
     [CHR 0xE4, CHR 0xBA, CHR 0xA4, CHR 0xE6, CHR 0x98, CHR 0x93, CHR 0xE7, CHR 0xAD, CHR 0xBE,
      CHR 0xE5, CHR 0x90, CHR 0x8D, CHR 0xEF, CHR 0xBC, CHR 0x9A]"

definition summary_zh_CN_2 :: string where
  "summary_zh_CN_2 =
     ''\<newline>\<newline>'' @
     [CHR 0xE8, CHR 0xAF, CHR 0xB7, CHR 0xE6, CHR 0x8F, CHR 0x90, CHR 0xE4, CHR 0xBE, CHR 0x9B,
      CHR 0xE4, CHR 0xBB, CHR 0xA5, CHR 0xE4, CHR 0xB8, CHR 0x8B, CHR 0xE4, CHR 0xBF, CHR 0xA1,
      CHR 0xE6, CHR 0x81, CHR 0xAF, CHR 0xEF, CHR 0xBC, CHR 0x9A] @
     ''\<newline>1. '' @
     [CHR 0xE4, CHR 0xBA, CHR 0xA4, CHR 0xE6, CHR 0x98, CHR 0x93, CHR 0xE6, CHR 0xA6, CHR 0x82,
      CHR 0xE8, CHR 0xBF, CHR 0xB0, CHR 0xEF, CHR 0xBC, CHR 0x88] @
     ''Transaction Overview'' @ [CHR 0xEF, CHR 0xBC, CHR 0x89] @ ''\<newline>2. '' @
     [CHR 0xE6, CHR 0xB6, CHR 0x89, CHR 0xE5, CHR 0x8F, CHR 0x8A, CHR 0xE7, CHR 0x9A, CHR 0x84,
      CHR 0xE8, CHR 0xB4, CHR 0xA6, CHR 0xE6, CHR 0x88, CHR 0xB7, CHR 0xEF, CHR 0xBC,
      CHR 0x88] @
     ''Accounts Involved'' @ [CHR 0xEF, CHR 0xBC, CHR 0x89] @ ''\<newline>3. '' @
     [CHR 0xE4, CHR 0xBB, CHR 0xA3, CHR 0xE5, CHR 0xB8, CHR 0x81, CHR 0xE8, CHR 0xBD, CHR 0xAC,
      CHR 0xE8, CHR 0xB4, CHR 0xA6, CHR 0xE8, CHR 0xAF, CHR 0xA6, CHR 0xE6, CHR 0x83, CHR 0x85,
      CHR 0xEF, CHR 0xBC, CHR 0x88] @
     ''Token Transfers'' @ [CHR 0xEF, CHR 0xBC, CHR 0x89] @ ''\<newline>4. '' @
     [CHR 0xE7, CHR 0xA8, CHR 0x8B, CHR 0xE5, CHR 0xBA, CHR 0x8F, CHR 0xE8, CHR 0xB0, CHR 0x83,
      CHR 0xE7, CHR 0x94, CHR 0xA8, CHR 0xEF, CHR 0xBC, CHR 0x88] @
     ''Program Calls'' @ [CHR 0xEF, CHR 0xBC, CHR 0x89] @ ''\<newline>5. '' @
     [CHR 0xE4, CHR 0xBA, CHR 0xA4, CHR 0xE6, CHR 0x98, CHR 0x93, CHR 0xE8, CHR 0xB4, CHR 0xB9,
      CHR 0xE7, CHR 0x94, CHR 0xA8, CHR 0xEF, CHR 0xBC, CHR 0x88] @
     ''Transaction Fee'' @ [CHR 0xEF, CHR 0xBC, CHR 0x89] @ ''\<newline>6. '' @
     [CHR 0xE4, CHR 0xBB, CHR 0xBB, CHR 0xE4, CHR 0xBD, CHR 0x95, CHR 0xE5, CHR 0x80, CHR 0xBC,
      CHR 0xE5, CHR 0xBE, CHR 0x97, CHR 0xE6, CHR 0xB3, CHR 0xA8, CHR 0xE6, CHR 0x84, CHR 0x8F,
      CHR 0xE7, CHR 0x9A, CHR 0x84, CHR 0xE9, CHR 0xA3, CHR 0x8E, CHR 0xE9, CHR 0x99, CHR 0xA9,
      CHR 0xE6, CHR 0x88, CHR 0x96, CHR 0xE5, CHR 0xBC, CHR 0x82, CHR 0xE5, CHR 0xB8, CHR 0xB8,
      CHR 0xEF, CHR 0xBC, CHR 0x88] @
     ''Notable Risks or Anomalies'' @ [CHR 0xEF, CHR 0xBC, CHR 0x89] @ ''\<newline>\<newline>'' @
     [CHR 0xE8, CHR 0xAF, CHR 0xB7, CHR 0xE4, CHR 0xBD, CHR 0xBF, CHR 0xE7, CHR 0x94, CHR 0xA8,
      CHR 0xE4, CHR 0xB8, CHR 0xAD, CHR 0xE6, CHR 0x96, CHR 0x87, CHR 0xE5, CHR 0x9B, CHR 0x9E,
      CHR 0xE5, CHR 0xA4, CHR 0x8D, CHR 0xEF, CHR 0xBC, CHR 0x8C, CHR 0xE5, CHR 0xB9, CHR 0xB6,
      CHR 0xE6, CHR 0x8F, CHR 0x90, CHR 0xE4, CHR 0xBE, CHR 0x9B, CHR 0xE8, CHR 0xAF, CHR 0xA6,
      CHR 0xE7, CHR 0xBB, CHR 0x86, CHR 0xE7, CHR 0x9A, CHR 0x84, CHR 0xE6, CHR 0x8A, CHR 0x80,
      CHR 0xE6, CHR 0x9C, CHR 0xAF, CHR 0xE5, CHR 0x88, CHR 0x86, CHR 0xE6, CHR 0x9E, CHR 0x90,
      CHR 0xE3, CHR 0x80, CHR 0x82, CHR 0xE5, CHR 0xA6, CHR 0x82, CHR 0xE6, CHR 0x9E, CHR 0x9C,
      CHR 0xE9, CHR 0x9C, CHR 0x80, CHR 0xE8, CHR 0xA6, CHR 0x81, CHR 0xE8, CHR 0x8E, CHR 0xB7,
      CHR 0xE5, CHR 0x8F, CHR 0x96, CHR 0xE4, CHR 0xBA, CHR 0xA4, CHR 0xE6, CHR 0x98, CHR 0x93,
      CHR 0xE6, CHR 0x95, CHR 0xB0, CHR 0xE6, CHR 0x8D, CHR 0xAE, CHR 0xEF, CHR 0xBC, CHR 0x8C,
      CHR 0xE8, CHR 0xAF, CHR 0xB7, CHR 0xE4, CHR 0xBD, CHR 0xBF, CHR 0xE7, CHR 0x94, CHR 0xA8,
      CHR 0xE5, CHR 0x8F, CHR 0xAF, CHR 0xE7, CHR 0x94, CHR 0xA8, CHR 0xE7, CHR 0x9A, CHR 0x84,
      CHR 0xE5, CHR 0xB7, CHR 0xA5, CHR 0xE5, CHR 0x85, CHR 0xB7, CHR 0xE3, CHR 0x80, CHR 0x82]"

definition summary_en_US_1 :: string where
  "summary_en_US_1 =
     ''Please analyze this Solana transaction signature: ''"

definition summary_en_US_2 :: string where
  "summary_en_US_2 =
     ''\<newline>\<newline>Please provide the following information:\<newline>1. Transaction Overview\<newline>2. Accounts Involved\<newline>3. Token Transfer Details\<newline>4. Program Calls\<newline>5. Transaction Fee\<newline>6. Any notable risks or anomalies\<newline>\<newline>Please respond in English and provide detailed technical analysis. Use available tools if you need to fetch transaction data.''"

definition summary_ja_JP_1 :: string where
  "summary_ja_JP_1 =
     [CHR 0xE3, CHR 0x81, CHR 0x93, CHR 0xE3, CHR 0x81, CHR 0xAE] @ ''Solana'' @
     [CHR 0xE5, CHR 0x8F, CHR 0x96, CHR 0xE5, CHR 0xBC, CHR 0x95, CHR 0xE7, CHR 0xBD, CHR 0xB2,
      CHR 0xE5, CHR 0x90, CHR 0x8D, CHR 0xE3, CHR 0x82, CHR 0x92, CHR 0xE5, CHR 0x88, CHR 0x86,
      CHR 0xE6, CHR 0x9E, CHR 0x90, CHR 0xE3, CHR 0x81, CHR 0x97, CHR 0xE3, CHR 0x81, CHR 0xA6,
      CHR 0xE3, CHR 0x81, CHR 0x8F, CHR 0xE3, CHR 0x81, CHR 0xA0, CHR 0xE3, CHR 0x81, CHR 0x95,
      CHR 0xE3, CHR 0x81, CHR 0x84, CHR 0xEF, CHR 0xBC, CHR 0x9A]"

definition summary_ja_JP_2 :: string where
  "summary_ja_JP_2 =
     ''\<newline>\<newline>'' @
     [CHR 0xE4, CHR 0xBB, CHR 0xA5, CHR 0xE4, CHR 0xB8, CHR 0x8B, CHR 0xE3, CHR 0x81, CHR 0xAE,
      CHR 0xE6, CHR 0x83, CHR 0x85, CHR 0xE5, CHR 0xA0, CHR 0xB1, CHR 0xE3, CHR 0x82, CHR 0x92,
      CHR 0xE6, CHR 0x8F, CHR 0x90, CHR 0xE4, CHR 0xBE, CHR 0x9B, CHR 0xE3, CHR 0x81, CHR 0x97,
      CHR 0xE3, CHR 0x81, CHR 0xA6, CHR 0xE3, CHR 0x81, CHR 0x8F, CHR 0xE3, CHR 0x81, CHR 0xA0,
      CHR 0xE3, CHR 0x81, CHR 0x95, CHR 0xE3, CHR 0x81, CHR 0x84, CHR 0xEF, CHR 0xBC,
      CHR 0x9A] @
     ''\<newline>1. '' @
     [CHR 0xE5, CHR 0x8F, CHR 0x96, CHR 0xE5, CHR 0xBC, CHR 0x95, CHR 0xE6, CHR 0xA6, CHR 0x82,
      CHR 0xE8, CHR 0xA6, CHR 0x81, CHR 0xEF, CHR 0xBC, CHR 0x88] @
     ''Transaction Overview'' @ [CHR 0xEF, CHR 0xBC, CHR 0x89] @ ''\<newline>2. '' @
     [CHR 0xE9, CHR 0x96, CHR 0xA2, CHR 0xE4, CHR 0xB8, CHR 0x8E, CHR 0xE3, CHR 0x81, CHR 0x99,
      CHR 0xE3, CHR 0x82, CHR 0x8B, CHR 0xE3, CHR 0x82, CHR 0xA2, CHR 0xE3, CHR 0x82, CHR 0xAB,
      CHR 0xE3, CHR 0x82, CHR 0xA6, CHR 0xE3, CHR 0x83, CHR 0xB3, CHR 0xE3, CHR 0x83, CHR 0x88,
      CHR 0xEF, CHR 0xBC, CHR 0x88] @
     ''Accounts Involved'' @ [CHR 0xEF, CHR 0xBC, CHR 0x89] @ ''\<newline>3. '' @
     [CHR 0xE3, CHR 0x83, CHR 0x88, CHR 0xE3, CHR 0x83, CHR 0xBC, CHR 0xE3, CHR 0x82, CHR 0xAF,
      CHR 0xE3, CHR 0x83, CHR 0xB3, CHR 0xE8, CHR 0xBB, CHR 0xA2, CHR 0xE9, CHR 0x80, CHR 0x81,
      CHR 0xE3, CHR 0x81, CHR 0xAE, CHR 0xE8, CHR 0xA9, CHR 0xB3, CHR 0xE7, CHR 0xB4, CHR 0xB0,
      CHR 0xEF, CHR 0xBC, CHR 0x88] @
     ''Token Transfers'' @ [CHR 0xEF, CHR 0xBC, CHR 0x89] @ ''\<newline>4. '' @
     [CHR 0xE3, CHR 0x83, CHR 0x97, CHR 0xE3, CHR 0x83, CHR 0xAD, CHR 0xE3, CHR 0x82, CHR 0xB0,
      CHR 0xE3, CHR 0x83, CHR 0xA9, CHR 0xE3, CHR 0x83, CHR 0xA0, CHR 0xE5, CHR 0x91, CHR 0xBC,
      CHR 0xE3, CHR 0x81, CHR 0xB3, CHR 0xE5, CHR 0x87, CHR 0xBA, CHR 0xE3, CHR 0x81, CHR 0x97,
      CHR 0xEF, CHR 0xBC, CHR 0x88] @
     ''Program Calls'' @ [CHR 0xEF, CHR 0xBC, CHR 0x89] @ ''\<newline>5. '' @
     [CHR 0xE5, CHR 0x8F, CHR 0x96, CHR 0xE5, CHR 0xBC, CHR 0x95, CHR 0xE6, CHR 0x89, CHR 0x8B,
      CHR 0xE6, CHR 0x95, CHR 0xB0, CHR 0xE6, CHR 0x96, CHR 0x99, CHR 0xEF, CHR 0xBC,
      CHR 0x88] @
     ''Transaction Fee'' @ [CHR 0xEF, CHR 0xBC, CHR 0x89] @ ''\<newline>6. '' @
     [CHR 0xE6, CHR 0xB3, CHR 0xA8, CHR 0xE7, CHR 0x9B, CHR 0xAE, CHR 0xE3, CHR 0x81, CHR 0x99,
      CHR 0xE3, CHR 0x81, CHR 0xB9, CHR 0xE3, CHR 0x81, CHR 0x8D, CHR 0xE3, CHR 0x83, CHR 0xAA,
      CHR 0xE3, CHR 0x82, CHR 0xB9, CHR 0xE3, CHR 0x82, CHR 0xAF, CHR 0xE3, CHR 0x82, CHR 0x84,
      CHR 0xE7, CHR 0x95, CHR 0xB0, CHR 0xE5, CHR 0xB8, CHR 0xB8, CHR 0xEF, CHR 0xBC,
      CHR 0x88] @
     ''Notable Risks or Anomalies'' @ [CHR 0xEF, CHR 0xBC, CHR 0x89] @ ''\<newline>\<newline>'' @
     [CHR 0xE6, CHR 0x97, CHR 0xA5, CHR 0xE6, CHR 0x9C, CHR 0xAC, CHR 0xE8, CHR 0xAA, CHR 0x9E,
      CHR 0xE3, CHR 0x81, CHR 0xA7, CHR 0xE5, CHR 0x9B, CHR 0x9E, CHR 0xE7, CHR 0xAD, CHR 0x94,
      CHR 0xE3, CHR 0x81, CHR 0x97, CHR 0xE3, CHR 0x80, CHR 0x81, CHR 0xE8, CHR 0xA9, CHR 0xB3,
      CHR 0xE7, CHR 0xB4, CHR 0xB0, CHR 0xE3, CHR 0x81, CHR 0xAA, CHR 0xE6, CHR 0x8A, CHR 0x80,
      CHR 0xE8, CHR 0xA1, CHR 0x93, CHR 0xE5, CHR 0x88, CHR 0x86, CHR 0xE6, CHR 0x9E, CHR 0x90,
      CHR 0xE3, CHR 0x82, CHR 0x92, CHR 0xE6, CHR 0x8F, CHR 0x90, CHR 0xE4, CHR 0xBE, CHR 0x9B,
      CHR 0xE3, CHR 0x81, CHR 0x97, CHR 0xE3, CHR 0x81, CHR 0xA6, CHR 0xE3, CHR 0x81, CHR 0x8F,
      CHR 0xE3, CHR 0x81, CHR 0xA0, CHR 0xE3, CHR 0x81, CHR 0x95, CHR 0xE3, CHR 0x81, CHR 0x84,
      CHR 0xE3, CHR 0x80, CHR 0x82, CHR 0xE5, CHR 0x8F, CHR 0x96, CHR 0xE5, CHR 0xBC, CHR 0x95,
      CHR 0xE3, CHR 0x83, CHR 0x87, CHR 0xE3, CHR 0x83, CHR 0xBC, CHR 0xE3, CHR 0x82, CHR 0xBF,
      CHR 0xE3, CHR 0x82, CHR 0x92, CHR 0xE5, CHR 0x8F, CHR 0x96, CHR 0xE5, CHR 0xBE, CHR 0x97,
      CHR 0xE3, CHR 0x81, CHR 0x99, CHR 0xE3, CHR 0x82, CHR 0x8B, CHR 0xE5, CHR 0xBF, CHR 0x85,
      CHR 0xE8, CHR 0xA6, CHR 0x81, CHR 0xE3, CHR 0x81, CHR 0x8C, CHR 0xE3, CHR 0x81, CHR 0x82,
      CHR 0xE3, CHR 0x82, CHR 0x8B, CHR 0xE5, CHR 0xA0, CHR 0xB4, CHR 0xE5, CHR 0x90, CHR 0x88,
      CHR 0xE3, CHR 0x81, CHR 0xAF, CHR 0xE3, CHR 0x80, CHR 0x81, CHR 0xE5, CHR 0x88, CHR 0xA9,
      CHR 0xE7, CHR 0x94, CHR 0xA8, CHR 0xE5, CHR 0x8F, CHR 0xAF, CHR 0xE8, CHR 0x83, CHR 0xBD,
      CHR 0xE3, CHR 0x81, CHR 0xAA, CHR 0xE3, CHR 0x83, CHR 0x84, CHR 0xE3, CHR 0x83, CHR 0xBC,
      CHR 0xE3, CHR 0x83, CHR 0xAB, CHR 0xE3, CHR 0x82, CHR 0x92, CHR 0xE4, CHR 0xBD, CHR 0xBF,
      CHR 0xE7, CHR 0x94, CHR 0xA8, CHR 0xE3, CHR 0x81, CHR 0x97, CHR 0xE3, CHR 0x81, CHR 0xA6,
      CHR 0xE3, CHR 0x81, CHR 0x8F, CHR 0xE3, CHR 0x81, CHR 0xA0, CHR 0xE3, CHR 0x81, CHR 0x95,
      CHR 0xE3, CHR 0x81, CHR 0x84, CHR 0xE3, CHR 0x80, CHR 0x82]"

definition summary_ko_KR_1 :: string where
  "summary_ko_KR_1 =
     [CHR 0xEC, CHR 0x9D, CHR 0xB4] @ '' Solana '' @
     [CHR 0xEA, CHR 0xB1, CHR 0xB0, CHR 0xEB, CHR 0x9E, CHR 0x98] @ '' '' @
     [CHR 0xEC, CHR 0x84, CHR 0x9C, CHR 0xEB, CHR 0xAA, CHR 0x85, CHR 0xEC, CHR 0x9D,
      CHR 0x84] @
     '' '' @
     [CHR 0xEB, CHR 0xB6, CHR 0x84, CHR 0xEC, CHR 0x84, CHR 0x9D, CHR 0xED, CHR 0x95, CHR 0x98,
      CHR 0xEC, CHR 0x8B, CHR 0xAD, CHR 0xEC, CHR 0x8B, CHR 0x9C, CHR 0xEC, CHR 0x98,
      CHR 0xA4] @
     '': ''"

definition summary_ko_KR_2 :: string where
  "summary_ko_KR_2 =
     ''\<newline>\<newline>'' @ [CHR 0xEB, CHR 0x8B, CHR 0xA4, CHR 0xEC, CHR 0x9D, CHR 0x8C] @
     '' '' @
     [CHR 0xEC, CHR 0xA0, CHR 0x95, CHR 0xEB, CHR 0xB3, CHR 0xB4, CHR 0xEB, CHR 0xA5,
      CHR 0xBC] @
     '' '' @
     [CHR 0xEC, CHR 0xA0, CHR 0x9C, CHR 0xEA, CHR 0xB3, CHR 0xB5, CHR 0xED, CHR 0x95, CHR 0x98,
      CHR 0xEC, CHR 0x8B, CHR 0xAD, CHR 0xEC, CHR 0x8B, CHR 0x9C, CHR 0xEC, CHR 0x98,
      CHR 0xA4] @
     '':\<newline>1. '' @ [CHR 0xEA, CHR 0xB1, CHR 0xB0, CHR 0xEB, CHR 0x9E, CHR 0x98] @ '' '' @
     [CHR 0xEA, CHR 0xB0, CHR 0x9C, CHR 0xEC, CHR 0x9A, CHR 0x94] @
     '' (Transaction Overview)\<newline>2. '' @
     [CHR 0xEA, CHR 0xB4, CHR 0x80, CHR 0xEB, CHR 0xA0, CHR 0xA8] @ '' '' @
     [CHR 0xEA, CHR 0xB3, CHR 0x84, CHR 0xEC, CHR 0xA0, CHR 0x95] @
     '' (Accounts Involved)\<newline>3. '' @
     [CHR 0xED, CHR 0x86, CHR 0xA0, CHR 0xED, CHR 0x81, CHR 0xB0] @ '' '' @
     [CHR 0xEC, CHR 0xA0, CHR 0x84, CHR 0xEC, CHR 0x86, CHR 0xA1] @ '' '' @
     [CHR 0xEC, CHR 0x84, CHR 0xB8, CHR 0xEB, CHR 0xB6, CHR 0x80, CHR 0xEC, CHR 0x82, CHR 0xAC,
      CHR 0xED, CHR 0x95, CHR 0xAD] @
     '' (Token Transfers)\<newline>4. '' @
     [CHR 0xED, CHR 0x94, CHR 0x84, CHR 0xEB, CHR 0xA1, CHR 0x9C, CHR 0xEA, CHR 0xB7, CHR 0xB8,
      CHR 0xEB, CHR 0x9E, CHR 0xA8] @
     '' '' @ [CHR 0xED, CHR 0x98, CHR 0xB8, CHR 0xEC, CHR 0xB6, CHR 0x9C] @
     '' (Program Calls)\<newline>5. '' @
     [CHR 0xEA, CHR 0xB1, CHR 0xB0, CHR 0xEB, CHR 0x9E, CHR 0x98] @ '' '' @
     [CHR 0xEC, CHR 0x88, CHR 0x98, CHR 0xEC, CHR 0x88, CHR 0x98, CHR 0xEB, CHR 0xA3,
      CHR 0x8C] @
     '' (Transaction Fee)\<newline>6. '' @
     [CHR 0xEC, CHR 0xA3, CHR 0xBC, CHR 0xEB, CHR 0xAA, CHR 0xA9, CHR 0xED, CHR 0x95,
      CHR 0xA0] @
     '' '' @ [CHR 0xEB, CHR 0xA7, CHR 0x8C, CHR 0xED, CHR 0x95, CHR 0x9C] @ '' '' @
     [CHR 0xEC, CHR 0x9C, CHR 0x84, CHR 0xED, CHR 0x97, CHR 0x98] @ '' '' @
     [CHR 0xEB, CHR 0x98, CHR 0x90, CHR 0xEB, CHR 0x8A, CHR 0x94] @ '' '' @
     [CHR 0xEC, CHR 0x9D, CHR 0xB4, CHR 0xEC, CHR 0x83, CHR 0x81] @
     '' (Notable Risks or Anomalies)\<newline>\<newline>'' @
     [CHR 0xED, CHR 0x95, CHR 0x9C, CHR 0xEA, CHR 0xB5, CHR 0xAD, CHR 0xEC, CHR 0x96, CHR 0xB4,
      CHR 0xEB, CHR 0xA1, CHR 0x9C] @
     '' '' @
     [CHR 0xEB, CHR 0x8B, CHR 0xB5, CHR 0xEB, CHR 0xB3, CHR 0x80, CHR 0xED, CHR 0x95, CHR 0x98,
      CHR 0xEA, CHR 0xB3, CHR 0xA0] @
     '' '' @
     [CHR 0xEC, CHR 0x83, CHR 0x81, CHR 0xEC, CHR 0x84, CHR 0xB8, CHR 0xED, CHR 0x95,
      CHR 0x9C] @
     '' '' @ [CHR 0xEA, CHR 0xB8, CHR 0xB0, CHR 0xEC, CHR 0x88, CHR 0xA0] @ '' '' @
     [CHR 0xEB, CHR 0xB6, CHR 0x84, CHR 0xEC, CHR 0x84, CHR 0x9D, CHR 0xEC, CHR 0x9D,
      CHR 0x84] @
     '' '' @
     [CHR 0xEC, CHR 0xA0, CHR 0x9C, CHR 0xEA, CHR 0xB3, CHR 0xB5, CHR 0xED, CHR 0x95, CHR 0x98,
      CHR 0xEC, CHR 0x8B, CHR 0xAD, CHR 0xEC, CHR 0x8B, CHR 0x9C, CHR 0xEC, CHR 0x98,
      CHR 0xA4] @
     ''. '' @ [CHR 0xEA, CHR 0xB1, CHR 0xB0, CHR 0xEB, CHR 0x9E, CHR 0x98] @ '' '' @
     [CHR 0xEB, CHR 0x8D, CHR 0xB0, CHR 0xEC, CHR 0x9D, CHR 0xB4, CHR 0xED, CHR 0x84, CHR 0xB0,
      CHR 0xEB, CHR 0xA5, CHR 0xBC] @
     '' '' @
     [CHR 0xEA, CHR 0xB0, CHR 0x80, CHR 0xEC, CHR 0xA0, CHR 0xB8, CHR 0xEC, CHR 0x99, CHR 0x80,
      CHR 0xEC, CHR 0x95, CHR 0xBC] @
     '' '' @ [CHR 0xED, CHR 0x95, CHR 0x98, CHR 0xEB, CHR 0x8A, CHR 0x94] @ '' '' @
     [CHR 0xEA, CHR 0xB2, CHR 0xBD, CHR 0xEC, CHR 0x9A, CHR 0xB0] @ '' '' @
     [CHR 0xEC, CHR 0x82, CHR 0xAC, CHR 0xEC, CHR 0x9A, CHR 0xA9] @ '' '' @
     [CHR 0xEA, CHR 0xB0, CHR 0x80, CHR 0xEB, CHR 0x8A, CHR 0xA5, CHR 0xED, CHR 0x95,
      CHR 0x9C] @
     '' '' @
     [CHR 0xEB, CHR 0x8F, CHR 0x84, CHR 0xEA, CHR 0xB5, CHR 0xAC, CHR 0xEB, CHR 0xA5,
      CHR 0xBC] @
     '' '' @
     [CHR 0xEC, CHR 0x82, CHR 0xAC, CHR 0xEC, CHR 0x9A, CHR 0xA9, CHR 0xED, CHR 0x95, CHR 0x98,
      CHR 0xEC, CHR 0x8B, CHR 0xAD, CHR 0xEC, CHR 0x8B, CHR 0x9C, CHR 0xEC, CHR 0x98,
      CHR 0xA4] @
     ''.''"

definition chat_zh_CN_1 :: string where
  "chat_zh_CN_1 =
     [CHR 0xE4, CHR 0xBD, CHR 0xA0, CHR 0xE6, CHR 0xAD, CHR 0xA3, CHR 0xE5, CHR 0x9C, CHR 0xA8,
      CHR 0xE5, CHR 0x88, CHR 0x86, CHR 0xE6, CHR 0x9E, CHR 0x90] @
     ''Solana'' @
     [CHR 0xE4, CHR 0xBA, CHR 0xA4, CHR 0xE6, CHR 0x98, CHR 0x93, CHR 0xE7, CHR 0xAD, CHR 0xBE,
      CHR 0xE5, CHR 0x90, CHR 0x8D, CHR 0xEF, CHR 0xBC, CHR 0x9A]"

definition chat_zh_CN_2 :: string where
  "chat_zh_CN_2 =
     ''\<newline>\<newline>'' @
     [CHR 0xE5, CHR 0xAF, CHR 0xB9, CHR 0xE8, CHR 0xAF, CHR 0x9D, CHR 0xE5, CHR 0x8E, CHR 0x86,
      CHR 0xE5, CHR 0x8F, CHR 0xB2, CHR 0xEF, CHR 0xBC, CHR 0x9A] @
     ''\<newline>''"

definition chat_zh_CN_3 :: string where
  "chat_zh_CN_3 =
     ''\<newline>\<newline>'' @
     [CHR 0xE7, CHR 0x94, CHR 0xA8, CHR 0xE6, CHR 0x88, CHR 0xB7, CHR 0xE9, CHR 0x97, CHR 0xAE,
      CHR 0xE9, CHR 0xA2, CHR 0x98, CHR 0xEF, CHR 0xBC, CHR 0x9A]"

definition chat_zh_CN_4 :: string where
  "chat_zh_CN_4 =
     ''\<newline>\<newline>'' @
     [CHR 0xE8, CHR 0xAF, CHR 0xB7, CHR 0xE5, CHR 0x9F, CHR 0xBA, CHR 0xE4, CHR 0xBA, CHR 0x8E,
      CHR 0xE4, CHR 0xBA, CHR 0xA4, CHR 0xE6, CHR 0x98, CHR 0x93, CHR 0xE6, CHR 0x95, CHR 0xB0,
      CHR 0xE6, CHR 0x8D, CHR 0xAE, CHR 0xE6, CHR 0x8F, CHR 0x90, CHR 0xE4, CHR 0xBE, CHR 0x9B,
      CHR 0xE5, CHR 0x87, CHR 0x86, CHR 0xE7, CHR 0xA1, CHR 0xAE, CHR 0xE3, CHR 0x80, CHR 0x81,
      CHR 0xE6, CHR 0x9C, CHR 0x89, CHR 0xE5, CHR 0xB8, CHR 0xAE, CHR 0xE5, CHR 0x8A, CHR 0xA9,
      CHR 0xE7, CHR 0x9A, CHR 0x84, CHR 0xE5, CHR 0x9B, CHR 0x9E, CHR 0xE7, CHR 0xAD, CHR 0x94,
      CHR 0xE3, CHR 0x80, CHR 0x82, CHR 0xE5, CHR 0xA6, CHR 0x82, CHR 0xE6, CHR 0x9E, CHR 0x9C,
      CHR 0xE9, CHR 0x9C, CHR 0x80, CHR 0xE8, CHR 0xA6, CHR 0x81, CHR 0xE8, CHR 0x8E, CHR 0xB7,
      CHR 0xE5, CHR 0x8F, CHR 0x96, CHR 0xE6, CHR 0x9B, CHR 0xB4, CHR 0xE5, CHR 0xA4, CHR 0x9A,
      CHR 0xE4, CHR 0xBA, CHR 0xA4, CHR 0xE6, CHR 0x98, CHR 0x93, CHR 0xE4, CHR 0xBF, CHR 0xA1,
      CHR 0xE6, CHR 0x81, CHR 0xAF, CHR 0xEF, CHR 0xBC, CHR 0x8C, CHR 0xE8, CHR 0xAF, CHR 0xB7,
      CHR 0xE4, CHR 0xBD, CHR 0xBF, CHR 0xE7, CHR 0x94, CHR 0xA8, CHR 0xE5, CHR 0x8F, CHR 0xAF,
      CHR 0xE7, CHR 0x94, CHR 0xA8, CHR 0xE7, CHR 0x9A, CHR 0x84, CHR 0xE5, CHR 0xB7, CHR 0xA5,
      CHR 0xE5, CHR 0x85, CHR 0xB7, CHR 0xE3, CHR 0x80, CHR 0x82, CHR 0xE8, CHR 0xAF, CHR 0xB7,
      CHR 0xE7, CHR 0x94, CHR 0xA8, CHR 0xE4, CHR 0xB8, CHR 0xAD, CHR 0xE6, CHR 0x96, CHR 0x87,
      CHR 0xE5, CHR 0x9B, CHR 0x9E, CHR 0xE5, CHR 0xA4, CHR 0x8D, CHR 0xE3, CHR 0x80, CHR 0x82]"

definition chat_en_US_1 :: string where
  "chat_en_US_1 =
     ''You are analyzing a Solana transaction signature: ''"

definition chat_en_US_2 :: string where
  "chat_en_US_2 =
     ''\<newline>\<newline>Conversation history:\<newline>''"

definition chat_en_US_3 :: string where
  "chat_en_US_3 =
     ''\<newline>\<newline>User question: ''"

definition chat_en_US_4 :: string where
  "chat_en_US_4 =
     ''\<newline>\<newline>Please provide an accurate and helpful response based on transaction data. Use available tools if you need to fetch more transaction information. Please respond in English.''"

definition chat_ja_JP_1 :: string where
  "chat_ja_JP_1 =
     ''Solana'' @
     [CHR 0xE5, CHR 0x8F, CHR 0x96, CHR 0xE5, CHR 0xBC, CHR 0x95, CHR 0xE7, CHR 0xBD, CHR 0xB2,
      CHR 0xE5, CHR 0x90, CHR 0x8D, CHR 0xE3, CHR 0x82, CHR 0x92, CHR 0xE5, CHR 0x88, CHR 0x86,
      CHR 0xE6, CHR 0x9E, CHR 0x90, CHR 0xE3, CHR 0x81, CHR 0x97, CHR 0xE3, CHR 0x81, CHR 0xA6,
      CHR 0xE3, CHR 0x81, CHR 0x84, CHR 0xE3, CHR 0x81, CHR 0xBE, CHR 0xE3, CHR 0x81, CHR 0x99,
      CHR 0xEF, CHR 0xBC, CHR 0x9A]"

definition chat_ja_JP_2 :: string where
  "chat_ja_JP_2 =
     ''\<newline>\<newline>'' @
     [CHR 0xE4, CHR 0xBC, CHR 0x9A, CHR 0xE8, CHR 0xA9, CHR 0xB1, CHR 0xE5, CHR 0xB1, CHR 0xA5,
      CHR 0xE6, CHR 0xAD, CHR 0xB4, CHR 0xEF, CHR 0xBC, CHR 0x9A] @
     ''\<newline>''"

definition chat_ja_JP_3 :: string where
  "chat_ja_JP_3 =
     ''\<newline>\<newline>'' @
     [CHR 0xE3, CHR 0x83, CHR 0xA6, CHR 0xE3, CHR 0x83, CHR 0xBC, CHR 0xE3, CHR 0x82, CHR 0xB6,
      CHR 0xE3, CHR 0x83, CHR 0xBC, CHR 0xE8, CHR 0xB3, CHR 0xAA, CHR 0xE5, CHR 0x95, CHR 0x8F,
      CHR 0xEF, CHR 0xBC, CHR 0x9A]"

definition chat_ja_JP_4 :: string where
  "chat_ja_JP_4 =
     ''\<newline>\<newline>'' @
     [CHR 0xE5, CHR 0x8F, CHR 0x96, CHR 0xE5, CHR 0xBC, CHR 0x95, CHR 0xE3, CHR 0x83, CHR 0x87,
      CHR 0xE3, CHR 0x83, CHR 0xBC, CHR 0xE3, CHR 0x82, CHR 0xBF, CHR 0xE3, CHR 0x81, CHR 0xAB,
      CHR 0xE5, CHR 0x9F, CHR 0xBA, CHR 0xE3, CHR 0x81, CHR 0xA5, CHR 0xE3, CHR 0x81, CHR 0x84,
      CHR 0xE3, CHR 0x81, CHR 0xA6, CHR 0xE6, CHR 0xAD, CHR 0xA3, CHR 0xE7, CHR 0xA2, CHR 0xBA,
      CHR 0xE3, CHR 0x81, CHR 0xA7, CHR 0xE5, CHR 0xBD, CHR 0xB9, CHR 0xE7, CHR 0xAB, CHR 0x8B,
      CHR 0xE3, CHR 0x81, CHR 0xA4, CHR 0xE5, CHR 0x9B, CHR 0x9E, CHR 0xE7, CHR 0xAD, CHR 0x94,
      CHR 0xE3, CHR 0x82, CHR 0x92, CHR 0xE6, CHR 0x8F, CHR 0x90, CHR 0xE4, CHR 0xBE, CHR 0x9B,
      CHR 0xE3, CHR 0x81, CHR 0x97, CHR 0xE3, CHR 0x81, CHR 0xA6, CHR 0xE3, CHR 0x81, CHR 0x8F,
      CHR 0xE3, CHR 0x81, CHR 0xA0, CHR 0xE3, CHR 0x81, CHR 0x95, CHR 0xE3, CHR 0x81, CHR 0x84,
      CHR 0xE3, CHR 0x80, CHR 0x82, CHR 0xE3, CHR 0x82, CHR 0x88, CHR 0xE3, CHR 0x82, CHR 0x8A,
      CHR 0xE5, CHR 0xA4, CHR 0x9A, CHR 0xE3, CHR 0x81, CHR 0x8F, CHR 0xE3, CHR 0x81, CHR 0xAE,
      CHR 0xE5, CHR 0x8F, CHR 0x96, CHR 0xE5, CHR 0xBC, CHR 0x95, CHR 0xE6, CHR 0x83, CHR 0x85,
      CHR 0xE5, CHR 0xA0, CHR 0xB1, CHR 0xE3, CHR 0x82, CHR 0x92, CHR 0xE5, CHR 0x8F, CHR 0x96,
      CHR 0xE5, CHR 0xBE, CHR 0x97, CHR 0xE3, CHR 0x81, CHR 0x99, CHR 0xE3, CHR 0x82, CHR 0x8B,
      CHR 0xE5, CHR 0xBF, CHR 0x85, CHR 0xE8, CHR 0xA6, CHR 0x81, CHR 0xE3, CHR 0x81, CHR 0x8C,
      CHR 0xE3, CHR 0x81, CHR 0x82, CHR 0xE3, CHR 0x82, CHR 0x8B, CHR 0xE5, CHR 0xA0, CHR 0xB4,
      CHR 0xE5, CHR 0x90, CHR 0x88, CHR 0xE3, CHR 0x81, CHR 0xAF, CHR 0xE3, CHR 0x80, CHR 0x81,
      CHR 0xE5, CHR 0x88, CHR 0xA9, CHR 0xE7, CHR 0x94, CHR 0xA8, CHR 0xE5, CHR 0x8F, CHR 0xAF,
      CHR 0xE8, CHR 0x83, CHR 0xBD, CHR 0xE3, CHR 0x81, CHR 0xAA, CHR 0xE3, CHR 0x83, CHR 0x84,
      CHR 0xE3, CHR 0x83, CHR 0xBC, CHR 0xE3, CHR 0x83, CHR 0xAB, CHR 0xE3, CHR 0x82, CHR 0x92,
      CHR 0xE4, CHR 0xBD, CHR 0xBF, CHR 0xE7, CHR 0x94, CHR 0xA8, CHR 0xE3, CHR 0x81, CHR 0x97,
      CHR 0xE3, CHR 0x81, CHR 0xA6, CHR 0xE3, CHR 0x81, CHR 0x8F, CHR 0xE3, CHR 0x81, CHR 0xA0,
      CHR 0xE3, CHR 0x81, CHR 0x95, CHR 0xE3, CHR 0x81, CHR 0x84, CHR 0xE3, CHR 0x80, CHR 0x82,
      CHR 0xE6, CHR 0x97, CHR 0xA5, CHR 0xE6, CHR 0x9C, CHR 0xAC, CHR 0xE8, CHR 0xAA, CHR 0x9E,
      CHR 0xE3, CHR 0x81, CHR 0xA7, CHR 0xE5, CHR 0x9B, CHR 0x9E, CHR 0xE7, CHR 0xAD, CHR 0x94,
      CHR 0xE3, CHR 0x81, CHR 0x97, CHR 0xE3, CHR 0x81, CHR 0xA6, CHR 0xE3, CHR 0x81, CHR 0x8F,
      CHR 0xE3, CHR 0x81, CHR 0xA0, CHR 0xE3, CHR 0x81, CHR 0x95, CHR 0xE3, CHR 0x81, CHR 0x84,
      CHR 0xE3, CHR 0x80, CHR 0x82]"

definition chat_ko_KR_1 :: string where
  "chat_ko_KR_1 =
     ''Solana '' @ [CHR 0xEA, CHR 0xB1, CHR 0xB0, CHR 0xEB, CHR 0x9E, CHR 0x98] @ '' '' @
     [CHR 0xEC, CHR 0x84, CHR 0x9C, CHR 0xEB, CHR 0xAA, CHR 0x85, CHR 0xEC, CHR 0x9D,
      CHR 0x84] @
     '' '' @
     [CHR 0xEB, CHR 0xB6, CHR 0x84, CHR 0xEC, CHR 0x84, CHR 0x9D, CHR 0xED, CHR 0x95, CHR 0x98,
      CHR 0xEA, CHR 0xB3, CHR 0xA0] @
     '' '' @
     [CHR 0xEC, CHR 0x9E, CHR 0x88, CHR 0xEC, CHR 0x8A, CHR 0xB5, CHR 0xEB, CHR 0x8B, CHR 0x88,
      CHR 0xEB, CHR 0x8B, CHR 0xA4] @
     '': ''"

definition chat_ko_KR_2 :: string where
  "chat_ko_KR_2 =
     ''\<newline>\<newline>'' @ [CHR 0xEB, CHR 0x8C, CHR 0x80, CHR 0xED, CHR 0x99, CHR 0x94] @
     '' '' @ [CHR 0xEA, CHR 0xB8, CHR 0xB0, CHR 0xEB, CHR 0xA1, CHR 0x9D] @ '':\<newline>''"

definition chat_ko_KR_3 :: string where
  "chat_ko_KR_3 =
     ''\<newline>\<newline>'' @
     [CHR 0xEC, CHR 0x82, CHR 0xAC, CHR 0xEC, CHR 0x9A, CHR 0xA9, CHR 0xEC, CHR 0x9E,
      CHR 0x90] @
     '' '' @ [CHR 0xEC, CHR 0xA7, CHR 0x88, CHR 0xEB, CHR 0xAC, CHR 0xB8] @ '': ''"

definition chat_ko_KR_4 :: string where
  "chat_ko_KR_4 =
     ''\<newline>\<newline>'' @ [CHR 0xEA, CHR 0xB1, CHR 0xB0, CHR 0xEB, CHR 0x9E, CHR 0x98] @
     '' '' @
     [CHR 0xEB, CHR 0x8D, CHR 0xB0, CHR 0xEC, CHR 0x9D, CHR 0xB4, CHR 0xED, CHR 0x84, CHR 0xB0,
      CHR 0xEB, CHR 0xA5, CHR 0xBC] @
     '' '' @
     [CHR 0xEA, CHR 0xB8, CHR 0xB0, CHR 0xEB, CHR 0xB0, CHR 0x98, CHR 0xEC, CHR 0x9C, CHR 0xBC,
      CHR 0xEB, CHR 0xA1, CHR 0x9C] @
     '' '' @
     [CHR 0xEC, CHR 0xA0, CHR 0x95, CHR 0xED, CHR 0x99, CHR 0x95, CHR 0xED, CHR 0x95, CHR 0x98,
      CHR 0xEA, CHR 0xB3, CHR 0xA0] @
     '' '' @
     [CHR 0xEB, CHR 0x8F, CHR 0x84, CHR 0xEC, CHR 0x9B, CHR 0x80, CHR 0xEC, CHR 0x9D,
      CHR 0xB4] @
     '' '' @ [CHR 0xEB, CHR 0x90, CHR 0x98, CHR 0xEB, CHR 0x8A, CHR 0x94] @ '' '' @
     [CHR 0xEB, CHR 0x8B, CHR 0xB5, CHR 0xEB, CHR 0xB3, CHR 0x80, CHR 0xEC, CHR 0x9D,
      CHR 0x84] @
     '' '' @
     [CHR 0xEC, CHR 0xA0, CHR 0x9C, CHR 0xEA, CHR 0xB3, CHR 0xB5, CHR 0xED, CHR 0x95, CHR 0x98,
      CHR 0xEC, CHR 0x8B, CHR 0xAD, CHR 0xEC, CHR 0x8B, CHR 0x9C, CHR 0xEC, CHR 0x98,
      CHR 0xA4] @
     ''. '' @ [CHR 0xEB, CHR 0x8D, CHR 0x94] @ '' '' @
     [CHR 0xEB, CHR 0xA7, CHR 0x8E, CHR 0xEC, CHR 0x9D, CHR 0x80] @ '' '' @
     [CHR 0xEA, CHR 0xB1, CHR 0xB0, CHR 0xEB, CHR 0x9E, CHR 0x98] @ '' '' @
     [CHR 0xEC, CHR 0xA0, CHR 0x95, CHR 0xEB, CHR 0xB3, CHR 0xB4, CHR 0xEB, CHR 0xA5,
      CHR 0xBC] @
     '' '' @
     [CHR 0xEA, CHR 0xB0, CHR 0x80, CHR 0xEC, CHR 0xA0, CHR 0xB8, CHR 0xEC, CHR 0x99, CHR 0x80,
      CHR 0xEC, CHR 0x95, CHR 0xBC] @
     '' '' @ [CHR 0xED, CHR 0x95, CHR 0x98, CHR 0xEB, CHR 0x8A, CHR 0x94] @ '' '' @
     [CHR 0xEA, CHR 0xB2, CHR 0xBD, CHR 0xEC, CHR 0x9A, CHR 0xB0] @ '' '' @
     [CHR 0xEC, CHR 0x82, CHR 0xAC, CHR 0xEC, CHR 0x9A, CHR 0xA9] @ '' '' @
     [CHR 0xEA, CHR 0xB0, CHR 0x80, CHR 0xEB, CHR 0x8A, CHR 0xA5, CHR 0xED, CHR 0x95,
      CHR 0x9C] @
     '' '' @
     [CHR 0xEB, CHR 0x8F, CHR 0x84, CHR 0xEA, CHR 0xB5, CHR 0xAC, CHR 0xEB, CHR 0xA5,
      CHR 0xBC] @
     '' '' @
     [CHR 0xEC, CHR 0x82, CHR 0xAC, CHR 0xEC, CHR 0x9A, CHR 0xA9, CHR 0xED, CHR 0x95, CHR 0x98,
      CHR 0xEC, CHR 0x8B, CHR 0xAD, CHR 0xEC, CHR 0x8B, CHR 0x9C, CHR 0xEC, CHR 0x98,
      CHR 0xA4] @
     ''. '' @
     [CHR 0xED, CHR 0x95, CHR 0x9C, CHR 0xEA, CHR 0xB5, CHR 0xAD, CHR 0xEC, CHR 0x96, CHR 0xB4,
      CHR 0xEB, CHR 0xA1, CHR 0x9C] @
     '' '' @
     [CHR 0xEB, CHR 0x8B, CHR 0xB5, CHR 0xEB, CHR 0xB3, CHR 0x80, CHR 0xED, CHR 0x95, CHR 0x98,
      CHR 0xEC, CHR 0x8B, CHR 0xAD, CHR 0xEC, CHR 0x8B, CHR 0x9C, CHR 0xEC, CHR 0x98,
      CHR 0xA4] @
     ''.''"

definition addition_zh_CN_1 :: string where
  "addition_zh_CN_1 =
     ''\<newline>\<newline>'' @
     [CHR 0xE5, CHR 0xB7, CHR 0xA5, CHR 0xE5, CHR 0x85, CHR 0xB7, CHR 0xE8, CHR 0xB0, CHR 0x83,
      CHR 0xE7, CHR 0x94, CHR 0xA8, CHR 0xE7, CHR 0xBB, CHR 0x93, CHR 0xE6, CHR 0x9E,
      CHR 0x9C] @
     '':\<newline>''"

definition addition_zh_CN_2 :: string where
  "addition_zh_CN_2 =
     ''\<newline>\<newline>'' @
     [CHR 0xE8, CHR 0xAF, CHR 0xB7, CHR 0xE5, CHR 0x9F, CHR 0xBA, CHR 0xE4, CHR 0xBA, CHR 0x8E,
      CHR 0xE4, CHR 0xBB, CHR 0xA5, CHR 0xE4, CHR 0xB8, CHR 0x8A, CHR 0xE5, CHR 0xB7, CHR 0xA5,
      CHR 0xE5, CHR 0x85, CHR 0xB7, CHR 0xE8, CHR 0xB0, CHR 0x83, CHR 0xE7, CHR 0x94, CHR 0xA8,
      CHR 0xE7, CHR 0xBB, CHR 0x93, CHR 0xE6, CHR 0x9E, CHR 0x9C, CHR 0xE6, CHR 0x8F, CHR 0x90,
      CHR 0xE4, CHR 0xBE, CHR 0x9B, CHR 0xE5, CHR 0xAE, CHR 0x8C, CHR 0xE6, CHR 0x95, CHR 0xB4,
      CHR 0xE7, CHR 0x9A, CHR 0x84, CHR 0xE4, CHR 0xBA, CHR 0xA4, CHR 0xE6, CHR 0x98, CHR 0x93,
      CHR 0xE5, CHR 0x88, CHR 0x86, CHR 0xE6, CHR 0x9E, CHR 0x90, CHR 0xE6, CHR 0x80, CHR 0xBB,
      CHR 0xE7, CHR 0xBB, CHR 0x93, CHR 0xE3, CHR 0x80, CHR 0x82]"

definition addition_en_US_1 :: string where
  "addition_en_US_1 =
     ''\<newline>\<newline>Tool Call Results:\<newline>''"

definition addition_en_US_2 :: string where
  "addition_en_US_2 =
     ''\<newline>\<newline>Please provide a complete transaction analysis summary based on the above tool call results.''"

definition addition_ja_JP_1 :: string where
  "addition_ja_JP_1 =
     ''\<newline>\<newline>'' @
     [CHR 0xE3, CHR 0x83, CHR 0x84, CHR 0xE3, CHR 0x83, CHR 0xBC, CHR 0xE3, CHR 0x83, CHR 0xAB,
      CHR 0xE5, CHR 0x91, CHR 0xBC, CHR 0xE3, CHR 0x81, CHR 0xB3, CHR 0xE5, CHR 0x87, CHR 0xBA,
      CHR 0xE3, CHR 0x81, CHR 0x97, CHR 0xE7, CHR 0xB5, CHR 0x90, CHR 0xE6, CHR 0x9E,
      CHR 0x9C] @
     '':\<newline>''"

definition addition_ja_JP_2 :: string where
  "addition_ja_JP_2 =
     ''\<newline>\<newline>'' @
     [CHR 0xE4, CHR 0xB8, CHR 0x8A, CHR 0xE8, CHR 0xA8, CHR 0x98, CHR 0xE3, CHR 0x81, CHR 0xAE,
      CHR 0xE3, CHR 0x83, CHR 0x84, CHR 0xE3, CHR 0x83, CHR 0xBC, CHR 0xE3, CHR 0x83, CHR 0xAB,
      CHR 0xE5, CHR 0x91, CHR 0xBC, CHR 0xE3, CHR 0x81, CHR 0xB3, CHR 0xE5, CHR 0x87, CHR 0xBA,
      CHR 0xE3, CHR 0x81, CHR 0x97, CHR 0xE7, CHR 0xB5, CHR 0x90, CHR 0xE6, CHR 0x9E, CHR 0x9C,
      CHR 0xE3, CHR 0x81, CHR 0xAB, CHR 0xE5, CHR 0x9F, CHR 0xBA, CHR 0xE3, CHR 0x81, CHR 0xA5,
      CHR 0xE3, CHR 0x81, CHR 0x84, CHR 0xE3, CHR 0x81, CHR 0xA6, CHR 0xE5, CHR 0xAE, CHR 0x8C,
      CHR 0xE5, CHR 0x85, CHR 0xA8, CHR 0xE3, CHR 0x81, CHR 0xAA, CHR 0xE5, CHR 0x8F, CHR 0x96,
      CHR 0xE5, CHR 0xBC, CHR 0x95, CHR 0xE5, CHR 0x88, CHR 0x86, CHR 0xE6, CHR 0x9E, CHR 0x90,
      CHR 0xE3, CHR 0x82, CHR 0xB5, CHR 0xE3, CHR 0x83, CHR 0x9E, CHR 0xE3, CHR 0x83, CHR 0xAA,
      CHR 0xE3, CHR 0x83, CHR 0xBC, CHR 0xE3, CHR 0x82, CHR 0x92, CHR 0xE6, CHR 0x8F, CHR 0x90,
      CHR 0xE4, CHR 0xBE, CHR 0x9B, CHR 0xE3, CHR 0x81, CHR 0x97, CHR 0xE3, CHR 0x81, CHR 0xA6,
      CHR 0xE3, CHR 0x81, CHR 0x8F, CHR 0xE3, CHR 0x81, CHR 0xA0, CHR 0xE3, CHR 0x81, CHR 0x95,
      CHR 0xE3, CHR 0x81, CHR 0x84, CHR 0xE3, CHR 0x80, CHR 0x82]"

definition addition_ko_KR_1 :: string where
  "addition_ko_KR_1 =
     ''\<newline>\<newline>'' @ [CHR 0xEB, CHR 0x8F, CHR 0x84, CHR 0xEA, CHR 0xB5, CHR 0xAC] @
     '' '' @ [CHR 0xED, CHR 0x98, CHR 0xB8, CHR 0xEC, CHR 0xB6, CHR 0x9C] @ '' '' @
     [CHR 0xEA, CHR 0xB2, CHR 0xB0, CHR 0xEA, CHR 0xB3, CHR 0xBC] @ '':\<newline>''"

definition addition_ko_KR_2 :: string where
  "addition_ko_KR_2 =
     ''\<newline>\<newline>'' @ [CHR 0xEC, CHR 0x9C, CHR 0x84, CHR 0xEC, CHR 0x9D, CHR 0x98] @
     '' '' @ [CHR 0xEB, CHR 0x8F, CHR 0x84, CHR 0xEA, CHR 0xB5, CHR 0xAC] @ '' '' @
     [CHR 0xED, CHR 0x98, CHR 0xB8, CHR 0xEC, CHR 0xB6, CHR 0x9C] @ '' '' @
     [CHR 0xEA, CHR 0xB2, CHR 0xB0, CHR 0xEA, CHR 0xB3, CHR 0xBC, CHR 0xEB, CHR 0xA5,
      CHR 0xBC] @
     '' '' @
     [CHR 0xEA, CHR 0xB8, CHR 0xB0, CHR 0xEB, CHR 0xB0, CHR 0x98, CHR 0xEC, CHR 0x9C, CHR 0xBC,
      CHR 0xEB, CHR 0xA1, CHR 0x9C] @
     '' '' @
     [CHR 0xEC, CHR 0x99, CHR 0x84, CHR 0xEC, CHR 0xA0, CHR 0x84, CHR 0xED, CHR 0x95,
      CHR 0x9C] @
     '' '' @ [CHR 0xEA, CHR 0xB1, CHR 0xB0, CHR 0xEB, CHR 0x9E, CHR 0x98] @ '' '' @
     [CHR 0xEB, CHR 0xB6, CHR 0x84, CHR 0xEC, CHR 0x84, CHR 0x9D] @ '' '' @
     [CHR 0xEC, CHR 0x9A, CHR 0x94, CHR 0xEC, CHR 0x95, CHR 0xBD, CHR 0xEC, CHR 0x9D,
      CHR 0x84] @
     '' '' @
     [CHR 0xEC, CHR 0xA0, CHR 0x9C, CHR 0xEA, CHR 0xB3, CHR 0xB5, CHR 0xED, CHR 0x95, CHR 0x98,
      CHR 0xEC, CHR 0x8B, CHR 0xAD, CHR 0xEC, CHR 0x8B, CHR 0x9C, CHR 0xEC, CHR 0x98,
      CHR 0xA4] @
     ''.''"

section \<open>Data model\<close>

datatype role = user | assistant

record ChatMessage =
  msg_role :: role
  msg_content :: string

definition role_name :: "role \<Rightarrow> string" where
  "role_name r = (case r of user \<Rightarrow> ''user'' | assistant \<Rightarrow> ''assistant'')"

section \<open>Prompt builder\<close>

definition getTransactionSummaryPrompt :: "string \<Rightarrow> string \<Rightarrow> js_value" where
  "getTransactionSummaryPrompt signature language =
     (let prompts =
        [(''zh-CN'', summary_zh_CN_1 @ signature @ summary_zh_CN_2),
         (''en-US'', summary_en_US_1 @ signature @ summary_en_US_2),
         (''ja-JP'', summary_ja_JP_1 @ signature @ summary_ja_JP_2),
         (''ko-KR'', summary_ko_KR_1 @ signature @ summary_ko_KR_2)]
      in js_or (get_property prompts language)
           (Str (summary_en_US_1 @ signature @ summary_en_US_2)))"

definition getChatPrompt :: "string \<Rightarrow> string \<Rightarrow> ChatMessage list \<Rightarrow> string \<Rightarrow> js_value" where
  "getChatPrompt signature userMessage conversationHistory language =
     (let history = join ''\<newline>''
            (map (\<lambda>msg. role_name (msg_role msg) @ '': '' @ msg_content msg) conversationHistory);
          basePrompts =
        [(''zh-CN'', chat_zh_CN_1 @ signature @ chat_zh_CN_2 @ history @ chat_zh_CN_3
                       @ userMessage @ chat_zh_CN_4),
         (''en-US'', chat_en_US_1 @ signature @ chat_en_US_2 @ history @ chat_en_US_3
                       @ userMessage @ chat_en_US_4),
         (''ja-JP'', chat_ja_JP_1 @ signature @ chat_ja_JP_2 @ history @ chat_ja_JP_3
                       @ userMessage @ chat_ja_JP_4),
         (''ko-KR'', chat_ko_KR_1 @ signature @ chat_ko_KR_2 @ history @ chat_ko_KR_3
                       @ userMessage @ chat_ko_KR_4)]
      in js_or (get_property basePrompts language)
           (Str (chat_en_US_1 @ signature @ chat_en_US_2 @ history @ chat_en_US_3
                   @ userMessage @ chat_en_US_4)))"

section \<open>Settings, tools, model requests and responses\<close>

text \<open>The type variable \<open>'j\<close> stands for the JSON values that pass through unread: tool
  arguments, tool results and parameter schemas.\<close>

record Settings =
  geminiApiKey :: string
  mcpUrl :: string
  geminiModel :: string
  temperature :: real
  maxTokens :: nat
  responseLanguage :: string

text \<open>What \<^verbatim>\<open>chrome.storage.sync.get\<close> returns: every key may be missing.\<close>

record StorageItems =
  stored_geminiApiKey :: "string option"
  stored_mcpUrl :: "string option"
  stored_geminiModel :: "string option"
  stored_temperature :: "real option"
  stored_maxTokens :: "nat option"
  stored_responseLanguage :: "string option"

record 'j InputSchema =
  properties :: "(string \<times> 'j) list option"
  required :: "string list option"

record 'j MCPTool =
  tool_name :: string
  tool_description :: "string option"
  inputSchema :: "'j InputSchema option"

record 'j FunctionDeclaration =
  decl_name :: string
  decl_description :: string
  parameters_type :: string
  parameters_properties :: "(string \<times> 'j) list"
  parameters_required :: "string list"

record 'j Tool =
  functionDeclarations :: "'j FunctionDeclaration list"

record 'j FunctionCall =
  call_name :: string
  call_args :: 'j

text \<open>A part of a model response: the optional fields \<^verbatim>\<open>text\<close> (\<open>part_text\<close>) and
  \<^verbatim>\<open>functionCall\<close>.\<close>

record 'j Part =
  part_text :: "string option"
  functionCall :: "'j FunctionCall option"

record 'j Content =
  parts :: "'j Part list option"

record 'j Candidate =
  content :: "'j Content option"

record 'j GenerateContentResponse =
  candidates :: "'j Candidate list option"

text \<open>A turn of a request, \<^verbatim>\<open>{role, parts: [{text: v}]}\<close>: \<open>turn_parts\<close> lists the
  values \<open>v\<close>.\<close>

record Turn =
  turn_role :: string
  turn_parts :: "js_value list"

record GenerationConfig =
  config_temperature :: real
  maxOutputTokens :: nat

text \<open>\<open>tools = None\<close> is a \<^verbatim>\<open>tools\<close> key that is \<^verbatim>\<open>null\<close> or absent.\<close>

record 'j Config =
  generationConfig :: GenerationConfig
  tools :: "'j Tool list option"

record 'j Request =
  model :: string
  config :: "'j Config"
  contents :: "Turn list"

record 'j ToolResult =
  tool :: string
  result :: "'j option"
  error :: "string option"

record 'j ChatResponse =
  response :: string
  toolCalls :: "'j FunctionCall list"
  toolResults :: "'j ToolResult list"

record 'j TransactionSummaryResponse =
  summary :: string
  summary_toolCalls :: "'j FunctionCall list"
  summary_toolResults :: "'j ToolResult list"

record GoogleGenAI =
  apiKey :: string

record Client =
  client_name :: string
  client_version :: string

section \<open>The outside world\<close>

text \<open>Every call that leaves the extension is recorded, in order.\<close>

datatype 'j event =
    StorageGet
  | McpConnect string
  | McpListTools
  | McpCallTool string 'j
  | GenerateContent "'j Request"

type_synonym 'j trace = "'j event list"

text \<open>
  The services are parameters. Each answer may depend on everything that happened before
  (the trace) and on the request; \<open>Inl msg\<close> (or \<open>Some msg\<close> for \<open>connect\<close>) is a
  rejected promise or a thrown error with message \<open>msg\<close>.
  \<open>new_URL\<close> and \<open>new_GoogleGenAI\<close> tell whether the constructor returns;
  \<open>stringify v\<close> is \<^verbatim>\<open>JSON.stringify(v, null, 2)\<close> and \<open>builtin_text k\<close> the string
  the runtime converts the inherited member \<open>k\<close> of \<^verbatim>\<open>Object.prototype\<close> to.
\<close>

record 'j env =
  storage_get :: "'j trace \<Rightarrow> string + StorageItems"
  new_GoogleGenAI :: "string \<Rightarrow> bool"
  new_URL :: "string \<Rightarrow> bool"
  connect :: "'j trace \<Rightarrow> string \<Rightarrow> string option"
  listTools :: "'j trace \<Rightarrow> string + 'j MCPTool list option"
  callTool :: "'j trace \<Rightarrow> string \<Rightarrow> 'j \<Rightarrow> string + 'j"
  generateContent :: "'j trace \<Rightarrow> 'j Request \<Rightarrow> string + 'j GenerateContentResponse"
  stringify :: "'j \<Rightarrow> string"
  builtin_text :: "string \<Rightarrow> string"

section \<open>The background assistant\<close>

record 'j SolscanAIAssistant =
  genAI :: "GoogleGenAI option"
  settings :: "Settings option"
  mcpTools :: "'j MCPTool list option"
  mcpClient :: "Client option"
  geminiTools :: "'j Tool list option"

definition new_SolscanAIAssistant :: "'j SolscanAIAssistant" where
  "new_SolscanAIAssistant =
     \<lparr>genAI = None, settings = None, mcpTools = None, mcpClient = None, geminiTools = None\<rparr>"

text \<open>\<^verbatim>\<open>s || d\<close> on an optional string: missing and empty are both falsy.\<close>

definition or_string :: "string option \<Rightarrow> string \<Rightarrow> string" where
  "or_string s d = (case s of None \<Rightarrow> d | Some v \<Rightarrow> if v = [] then d else v)"

definition loadSettings ::
  "'j env \<Rightarrow> 'j trace \<times> 'j SolscanAIAssistant
     \<Rightarrow> (string + unit) \<times> 'j trace \<times> 'j SolscanAIAssistant" where
  "loadSettings env ts =
     (case ts of (tr, st) \<Rightarrow>
        (case storage_get env tr of
           Inl err \<Rightarrow> (Inl err, tr @ [StorageGet], st)
         | Inr res \<Rightarrow>
             (Inr (), tr @ [StorageGet],
              st\<lparr>settings := Some
                \<lparr>geminiApiKey = or_string (stored_geminiApiKey res) [],
                 mcpUrl = or_string (stored_mcpUrl res) [],
                 geminiModel = or_string (stored_geminiModel res) ''gemini-2.5-pro'',
                 temperature =
                   (case stored_temperature res of
                      None \<Rightarrow> 0.7 | Some t \<Rightarrow> if t = 0 then 0.7 else t),
                 maxTokens =
                   (case stored_maxTokens res of
                      None \<Rightarrow> 2048 | Some n \<Rightarrow> if n = 0 then 2048 else n),
                 responseLanguage = or_string (stored_responseLanguage res) ''zh-CN''\<rparr>\<rparr>)))"

definition initializeGemini :: "'j env \<Rightarrow> 'j SolscanAIAssistant \<Rightarrow> 'j SolscanAIAssistant" where
  "initializeGemini env st =
     (case settings st of
        None \<Rightarrow> st
      | Some cfg \<Rightarrow>
          if geminiApiKey cfg = [] then st
          else if new_GoogleGenAI env (geminiApiKey cfg)
          then st\<lparr>genAI := Some \<lparr>apiKey = geminiApiKey cfg\<rparr>\<rparr>
          else st)"

definition convertMCPToolsToGemini :: "'j MCPTool list option \<Rightarrow> 'j Tool list option" where
  "convertMCPToolsToGemini mcpTools' =
     (case mcpTools' of
        None \<Rightarrow> None
      | Some ts \<Rightarrow>
          if length ts = 0 then None
          else Some
            [\<lparr>functionDeclarations =
                map (\<lambda>t.
                  \<lparr>decl_name = tool_name t,
                   decl_description = or_string (tool_description t) [],
                   parameters_type = ''object'',
                   parameters_properties =
                     (case inputSchema t of
                        None \<Rightarrow> []
                      | Some s \<Rightarrow> (case properties s of None \<Rightarrow> [] | Some p \<Rightarrow> p)),
                   parameters_required =
                     (case inputSchema t of
                        None \<Rightarrow> []
                      | Some s \<Rightarrow> (case required s of None \<Rightarrow> [] | Some r \<Rightarrow> r))\<rparr>) ts\<rparr>])"

text \<open>The client handle is stored before \<^verbatim>\<open>connect\<close> and \<^verbatim>\<open>listTools\<close> are awaited; the
  \<^verbatim>\<open>catch\<close> block only logs.\<close>

definition loadMCPTools ::
  "'j env \<Rightarrow> 'j trace \<times> 'j SolscanAIAssistant \<Rightarrow> 'j trace \<times> 'j SolscanAIAssistant" where
  "loadMCPTools env ts =
     (case ts of (tr, st) \<Rightarrow>
        (case settings st of
           None \<Rightarrow> (tr, st)
         | Some cfg \<Rightarrow>
             if mcpUrl cfg = [] then (tr, st)
             else if mcpClient st \<noteq> None then (tr, st)
             else if \<not> new_URL env (mcpUrl cfg) then (tr, st)
             else
               let st1 = st\<lparr>mcpClient :=
                            Some \<lparr>client_name = ''solscan-ai-extension'',
                                  client_version = ''1.0.0''\<rparr>\<rparr>;
                   tr1 = tr @ [McpConnect (mcpUrl cfg)]
               in (case connect env tr (mcpUrl cfg) of
                     Some err \<Rightarrow> (tr1, st1)
                   | None \<Rightarrow>
                       (case listTools env tr1 of
                          Inl err \<Rightarrow> (tr1 @ [McpListTools], st1)
                        | Inr toolsResponse \<Rightarrow>
                            let found = (case toolsResponse of None \<Rightarrow> [] | Some l \<Rightarrow> l)
                            in (tr1 @ [McpListTools],
                                st1\<lparr>mcpTools := Some found,
                                    geminiTools := convertMCPToolsToGemini (Some found)\<rparr>)))))"

definition init ::
  "'j env \<Rightarrow> 'j trace \<times> 'j SolscanAIAssistant \<Rightarrow> 'j trace \<times> 'j SolscanAIAssistant" where
  "init env ts =
     (case loadSettings env ts of
        (Inl err, tr1, st1) \<Rightarrow> (tr1, st1)
      | (Inr u, tr1, st1) \<Rightarrow> loadMCPTools env (tr1, initializeGemini env st1))"

definition callMCPTool ::
  "'j env \<Rightarrow> 'j SolscanAIAssistant \<Rightarrow> 'j trace \<Rightarrow> string \<Rightarrow> 'j \<Rightarrow> (string + 'j) \<times> 'j trace" where
  "callMCPTool env st tr toolName parameters =
     (case mcpClient st of
        None \<Rightarrow> (Inl ''MCP client not initialized'', tr)
      | Some c \<Rightarrow> (callTool env tr toolName parameters, tr @ [McpCallTool toolName parameters]))"

section \<open>Model exchanges\<close>

text \<open>\<^verbatim>\<open>response.candidates?.[0]?.content?.parts\<close>\<close>

definition response_parts :: "'j GenerateContentResponse \<Rightarrow> 'j Part list option" where
  "response_parts r =
     (case candidates r of
        None \<Rightarrow> None
      | Some [] \<Rightarrow> None
      | Some (c # cs) \<Rightarrow> (case content c of None \<Rightarrow> None | Some ct \<Rightarrow> parts ct))"

text \<open>\<^verbatim>\<open>parts ? parts.find(part => part.text) : null\<close>, then the text of the part
  found or the default: the first part whose text is present and non-empty.\<close>

definition text_or :: "string \<Rightarrow> 'j Part list option \<Rightarrow> string" where
  "text_or dflt ps =
     (case ps of
        None \<Rightarrow> dflt
      | Some xs \<Rightarrow>
          (case find (\<lambda>p. case part_text p of None \<Rightarrow> False | Some t \<Rightarrow> t \<noteq> []) xs of
             None \<Rightarrow> dflt
           | Some p \<Rightarrow> (case part_text p of None \<Rightarrow> dflt | Some t \<Rightarrow> t)))"

text \<open>\<^verbatim>\<open>parts.filter(part => part.functionCall).map(part => part.functionCall)\<close>\<close>

definition function_calls :: "'j Part list option \<Rightarrow> 'j FunctionCall list" where
  "function_calls ps = (case ps of None \<Rightarrow> [] | Some xs \<Rightarrow> List.map_filter functionCall xs)"

text \<open>The error thrown by \<^verbatim>\<open>this.settings!.responseLanguage\<close> when the settings are
  \<^verbatim>\<open>null\<close>.\<close>

definition settings_null_error :: string where
  "settings_null_error =
     ''Cannot read properties of null (reading '' @ [CHR 0x27] @ ''responseLanguage''
       @ [CHR 0x27] @ '')''"

definition generateTransactionSummary ::
  "'j env \<Rightarrow> string \<Rightarrow> 'j trace \<times> 'j SolscanAIAssistant
     \<Rightarrow> (string + 'j TransactionSummaryResponse) \<times> 'j trace \<times> 'j SolscanAIAssistant" where
  "generateTransactionSummary env signature ts =
     (case ts of (tr, st) \<Rightarrow>
        (case genAI st of
           None \<Rightarrow> (Inl ''Gemini AI not initialized. Please configure your API key.'', tr, st)
         | Some ai \<Rightarrow>
             (case settings st of
                None \<Rightarrow> (Inl settings_null_error, tr, st)
              | Some cfg \<Rightarrow>
                  let prompt = getTransactionSummaryPrompt signature (responseLanguage cfg);
                      req = \<lparr>model = geminiModel cfg,
                             config =
                               \<lparr>generationConfig =
                                  \<lparr>config_temperature = temperature cfg,
                                   maxOutputTokens = maxTokens cfg\<rparr>,
                                tools = None\<rparr>,
                             contents = [\<lparr>turn_role = ''user'', turn_parts = [prompt]\<rparr>]\<rparr>
                  in (case generateContent env tr req of
                        Inl err \<Rightarrow> (Inl err, tr @ [GenerateContent req], st)
                      | Inr resp \<Rightarrow>
                          (Inr \<lparr>summary =
                                  text_or ''Unable to generate summary'' (response_parts resp),
                                summary_toolCalls = [], summary_toolResults = []\<rparr>,
                           tr @ [GenerateContent req], st)))))"

text \<open>The loop over the requested calls: each call is awaited before the next starts, and
  a call that throws is recorded with its message.\<close>

fun execute_tool_calls ::
  "'j env \<Rightarrow> 'j SolscanAIAssistant \<Rightarrow> 'j FunctionCall list
     \<Rightarrow> 'j ToolResult list \<times> 'j trace \<Rightarrow> 'j ToolResult list \<times> 'j trace" where
  "execute_tool_calls env st [] acc = acc"
| "execute_tool_calls env st (call # calls) (toolResults', tr) =
     (case callMCPTool env st tr (call_name call) (call_args call) of
        (Inr toolResult, tr') \<Rightarrow>
          execute_tool_calls env st calls
            (toolResults' @ [\<lparr>tool = call_name call, result = Some toolResult, error = None\<rparr>],
             tr')
      | (Inl msg, tr') \<Rightarrow>
          execute_tool_calls env st calls
            (toolResults' @ [\<lparr>tool = call_name call, result = None, error = Some msg\<rparr>],
             tr'))"

text \<open>One entry of \<^verbatim>\<open>toolResultsText\<close>. \<^verbatim>\<open>JSON.stringify\<close> of the missing
  \<^verbatim>\<open>result\<close> of a failed call is \<^verbatim>\<open>undefined\<close>, which the template prints as
  \<^verbatim>\<open>undefined\<close>.\<close>

definition tool_result_text :: "'j env \<Rightarrow> 'j ToolResult \<Rightarrow> string" where
  "tool_result_text env r =
     ''Tool: '' @ tool r @ ''\<newline>Result: ''
       @ (case result r of None \<Rightarrow> ''undefined'' | Some v \<Rightarrow> stringify env v)"

definition toolResultsText :: "'j env \<Rightarrow> 'j ToolResult list \<Rightarrow> string" where
  "toolResultsText env rs = join ''\<newline>\<newline>'' (map (tool_result_text env) rs)"

text \<open>\<^verbatim>\<open>finalPromptAdditions[language] || finalPromptAdditions['en-US']\<close>\<close>

definition finalPromptAddition :: "string \<Rightarrow> string \<Rightarrow> js_value" where
  "finalPromptAddition resultsText language =
     (let finalPromptAdditions =
        [(''zh-CN'', addition_zh_CN_1 @ resultsText @ addition_zh_CN_2),
         (''en-US'', addition_en_US_1 @ resultsText @ addition_en_US_2),
         (''ja-JP'', addition_ja_JP_1 @ resultsText @ addition_ja_JP_2),
         (''ko-KR'', addition_ko_KR_1 @ resultsText @ addition_ko_KR_2)]
      in js_or (get_property finalPromptAdditions language)
           (Str (addition_en_US_1 @ resultsText @ addition_en_US_2)))"

text \<open>The contents of the first call: the history, turn by turn, then the prompt.\<close>

definition chat_contents :: "ChatMessage list \<Rightarrow> js_value \<Rightarrow> Turn list" where
  "chat_contents conversationHistory context =
     map (\<lambda>msg. \<lparr>turn_role = (if msg_role msg = user then ''user'' else ''model''),
                  turn_parts = [Str (msg_content msg)]\<rparr>) conversationHistory
       @ [\<lparr>turn_role = ''user'', turn_parts = [context]\<rparr>]"

definition chat_request ::
  "Settings \<Rightarrow> 'j Tool list option \<Rightarrow> Turn list \<Rightarrow> 'j Request" where
  "chat_request cfg tools' contents' =
     \<lparr>model = geminiModel cfg,
      config =
        \<lparr>generationConfig =
           \<lparr>config_temperature = temperature cfg, maxOutputTokens = maxTokens cfg\<rparr>,
         tools = tools'\<rparr>,
      contents = contents'\<rparr>"

text \<open>The lazy discovery at the start of \<^verbatim>\<open>chatWithTransaction\<close>.\<close>

definition ensure_tools ::
  "'j env \<Rightarrow> 'j trace \<times> 'j SolscanAIAssistant \<Rightarrow> 'j trace \<times> 'j SolscanAIAssistant" where
  "ensure_tools env ts =
     (case ts of (tr, st) \<Rightarrow> if geminiTools st = None then loadMCPTools env (tr, st) else (tr, st))"

text \<open>The request of the first model call of a chat exchange, and the prompt and request
  of the second one.\<close>

definition drafting_request ::
  "Settings \<Rightarrow> 'j Tool list option \<Rightarrow> string \<Rightarrow> string \<Rightarrow> ChatMessage list \<Rightarrow> 'j Request" where
  "drafting_request cfg tools' signature userMessage conversationHistory =
     chat_request cfg tools'
       (chat_contents conversationHistory
          (getChatPrompt signature userMessage [] (responseLanguage cfg)))"

definition finalPrompt ::
  "'j env \<Rightarrow> Settings \<Rightarrow> string \<Rightarrow> string \<Rightarrow> 'j ToolResult list \<Rightarrow> string" where
  "finalPrompt env cfg signature userMessage results =
     js_plus (builtin_text env)
       (getChatPrompt signature userMessage [] (responseLanguage cfg))
       (finalPromptAddition (toolResultsText env results) (responseLanguage cfg))"

definition finalizing_request ::
  "'j env \<Rightarrow> Settings \<Rightarrow> 'j Tool list option \<Rightarrow> string \<Rightarrow> string \<Rightarrow> 'j ToolResult list
     \<Rightarrow> 'j Request" where
  "finalizing_request env cfg tools' signature userMessage results =
     chat_request cfg tools'
       [\<lparr>turn_role = ''user'',
         turn_parts = [Str (finalPrompt env cfg signature userMessage results)]\<rparr>]"

text \<open>The parameter \<open>language\<close> of the source is never read: the language is taken from the
  settings.\<close>

definition chatWithTransaction ::
  "'j env \<Rightarrow> string \<Rightarrow> string \<Rightarrow> ChatMessage list \<Rightarrow> string option
     \<Rightarrow> 'j trace \<times> 'j SolscanAIAssistant
     \<Rightarrow> (string + 'j ChatResponse) \<times> 'j trace \<times> 'j SolscanAIAssistant" where
  "chatWithTransaction env signature userMessage conversationHistory language ts =
     (case ts of (tr, st) \<Rightarrow>
        (case genAI st of
           None \<Rightarrow> (Inl ''Gemini AI not initialized'', tr, st)
         | Some ai \<Rightarrow>
             (case ensure_tools env (tr, st) of
                (tr1, st1) \<Rightarrow>
                  (case settings st1 of
                     None \<Rightarrow> (Inl settings_null_error, tr1, st1)
                   | Some cfg \<Rightarrow>
                       let req = drafting_request cfg (geminiTools st1) signature userMessage
                                   conversationHistory;
                           tr2 = tr1 @ [GenerateContent req]
                       in (case generateContent env tr1 req of
                             Inl err \<Rightarrow> (Inl err, tr2, st1)
                           | Inr resp \<Rightarrow>
                               let functionCalls = function_calls (response_parts resp)
                               in if length functionCalls > 0 then
                                    (case execute_tool_calls env st1 functionCalls ([], tr2) of
                                       (results, tr3) \<Rightarrow>
                                         let finalReq = finalizing_request env cfg (geminiTools st1)
                                                          signature userMessage results
                                         in (case generateContent env tr3 finalReq of
                                               Inl err \<Rightarrow>
                                                 (Inl err, tr3 @ [GenerateContent finalReq], st1)
                                             | Inr finalResponse \<Rightarrow>
                                                 (Inr \<lparr>response =
                                                         text_or [] (response_parts finalResponse),
                                                       toolCalls = functionCalls,
                                                       toolResults = results\<rparr>,
                                                  tr3 @ [GenerateContent finalReq], st1)))
                                  else
                                    (Inr \<lparr>response = text_or [] (response_parts resp),
                                          toolCalls = [], toolResults = []\<rparr>,
                                     tr2, st1))))))"

definition reloadSettings ::
  "'j env \<Rightarrow> 'j trace \<times> 'j SolscanAIAssistant
     \<Rightarrow> (string + unit) \<times> 'j trace \<times> 'j SolscanAIAssistant" where
  "reloadSettings env ts =
     (case loadSettings env ts of
        (Inl err, tr1, st1) \<Rightarrow> (Inl err, tr1, st1)
      | (Inr u, tr1, st1) \<Rightarrow>
          (case loadMCPTools env (tr1, initializeGemini env st1) of
             (tr2, st2) \<Rightarrow> (Inr (), tr2, st2)))"

definition reloadMCPTools ::
  "'j env \<Rightarrow> 'j trace \<times> 'j SolscanAIAssistant \<Rightarrow> 'j trace \<times> 'j SolscanAIAssistant" where
  "reloadMCPTools env ts =
     (case ts of (tr, st) \<Rightarrow>
        loadMCPTools env (tr, st\<lparr>mcpClient := None, mcpTools := None, geminiTools := None\<rparr>))"

section \<open>Message handlers of the background script\<close>

text \<open>The branches of the \<^verbatim>\<open>chrome.runtime.onMessage\<close> listener that reach the
  assistant. The global \<^verbatim>\<open>assistant\<close> is \<open>None\<close> when its constructor threw.\<close>

record MessageRequest =
  request_action :: string
  request_signature :: "string option"
  request_message :: "string option"
  request_history :: "ChatMessage list option"

record 'a MessageResponse =
  success :: bool
  data :: "'a option"
  response_error :: "string option"

definition succeeded :: "'a \<Rightarrow> 'a MessageResponse" where
  "succeeded d = \<lparr>success = True, data = Some d, response_error = None\<rparr>"

definition failed :: "string \<Rightarrow> 'a MessageResponse" where
  "failed msg = \<lparr>success = False, data = None, response_error = Some msg\<rparr>"

text \<open>\<^verbatim>\<open>!request.signature\<close>: missing or empty.\<close>

definition falsy :: "string option \<Rightarrow> bool" where
  "falsy s = (case s of None \<Rightarrow> True | Some v \<Rightarrow> v = [])"

definition onMessage_getTransactionSummary ::
  "'j env \<Rightarrow> MessageRequest \<Rightarrow> 'j trace \<times> 'j SolscanAIAssistant option
     \<Rightarrow> 'j TransactionSummaryResponse MessageResponse
         \<times> 'j trace \<times> 'j SolscanAIAssistant option" where
  "onMessage_getTransactionSummary env request ts =
     (case ts of (tr, a) \<Rightarrow>
        if falsy (request_signature request)
        then (failed ''Transaction signature is required'', tr, a)
        else (case a of
                None \<Rightarrow> (failed ''AI assistant not initialized. Please check API keys.'', tr, a)
              | Some st \<Rightarrow>
                  (case generateTransactionSummary env (or_string (request_signature request) []) (tr, st) of
                     (Inr res, tr', st') \<Rightarrow> (succeeded res, tr', Some st')
                   | (Inl err, tr', st') \<Rightarrow>
                       (failed (or_string (Some err) ''Unknown error occurred''), tr', Some st'))))"

definition onMessage_chatWithTransaction ::
  "'j env \<Rightarrow> MessageRequest \<Rightarrow> 'j trace \<times> 'j SolscanAIAssistant option
     \<Rightarrow> 'j ChatResponse MessageResponse \<times> 'j trace \<times> 'j SolscanAIAssistant option" where
  "onMessage_chatWithTransaction env request ts =
     (case ts of (tr, a) \<Rightarrow>
        if falsy (request_signature request) \<or> falsy (request_message request)
        then (failed ''Transaction signature and message are required'', tr, a)
        else (case a of
                None \<Rightarrow> (failed ''AI assistant not initialized. Please check API keys.'', tr, a)
              | Some st \<Rightarrow>
                  (case chatWithTransaction env (or_string (request_signature request) [])
                          (or_string (request_message request) [])
                          (case request_history request of None \<Rightarrow> [] | Some h \<Rightarrow> h) None (tr, st) of
                     (Inr res, tr', st') \<Rightarrow> (succeeded res, tr', Some st')
                   | (Inl err, tr', st') \<Rightarrow>
                       (failed (or_string (Some err) ''Unknown error occurred''), tr', Some st'))))"

definition onMessage_reloadSettings ::
  "'j env \<Rightarrow> 'j trace \<times> 'j SolscanAIAssistant option
     \<Rightarrow> unit MessageResponse \<times> 'j trace \<times> 'j SolscanAIAssistant option" where
  "onMessage_reloadSettings env ts =
     (case ts of (tr, a) \<Rightarrow>
        (case a of
           None \<Rightarrow> (failed ''AI assistant not available'', tr, a)
         | Some st \<Rightarrow>
             (case reloadSettings env (tr, st) of
                (Inr u, tr', st') \<Rightarrow>
                  (\<lparr>success = True, data = None, response_error = None\<rparr>, tr', Some st')
              | (Inl err, tr', st') \<Rightarrow> (failed err, tr', Some st'))))"

definition onMessage_reloadMCPTools ::
  "'j env \<Rightarrow> 'j trace \<times> 'j SolscanAIAssistant option
     \<Rightarrow> unit MessageResponse \<times> 'j trace \<times> 'j SolscanAIAssistant option" where
  "onMessage_reloadMCPTools env ts =
     (case ts of (tr, a) \<Rightarrow>
        (case a of
           None \<Rightarrow> (failed ''AI assistant not available'', tr, a)
         | Some st \<Rightarrow>
             (case reloadMCPTools env (tr, st) of
                (tr', st') \<Rightarrow>
                  (\<lparr>success = True, data = None, response_error = None\<rparr>, tr', Some st'))))"

section \<open>The chat panel of the content script\<close>

text \<open>\<open>chatMessages\<close> lists what \<^verbatim>\<open>addChatMessage\<close> has put on the panel, as pairs of
  type (\<^verbatim>\<open>user\<close> or \<^verbatim>\<open>ai\<close>) and content.\<close>

record ContentScript =
  transactionSignature :: "string option"
  conversationHistory :: "ChatMessage list"
  currentLanguage :: string
  chatMessages :: "(string \<times> string) list"

definition addChatMessage :: "string \<Rightarrow> string \<Rightarrow> ContentScript \<Rightarrow> ContentScript" where
  "addChatMessage type content' ui = ui\<lparr>chatMessages := chatMessages ui @ [(type, content')]\<rparr>"

definition errorResponse_zh_CN :: string where
  "errorResponse_zh_CN =
     [CHR 0xE2, CHR 0x9D, CHR 0x8C] @ '' '' @
     [CHR 0xE6, CHR 0x8A, CHR 0xB1, CHR 0xE6, CHR 0xAD, CHR 0x89, CHR 0xEF, CHR 0xBC, CHR 0x8C,
      CHR 0xE5, CHR 0x87, CHR 0xBA, CHR 0xE7, CHR 0x8E, CHR 0xB0, CHR 0xE9, CHR 0x94, CHR 0x99,
      CHR 0xE8, CHR 0xAF, CHR 0xAF] @
     '': ''"

definition errorResponse_en_US :: string where
  "errorResponse_en_US =
     [CHR 0xE2, CHR 0x9D, CHR 0x8C] @ '' Sorry, an error occurred: ''"

text \<open>\<^verbatim>\<open>(uiTranslations[language] || uiTranslations['en-US']).errorResponse\<close> inside a
  template string. The table has the own keys \<^verbatim>\<open>zh-CN\<close> and \<^verbatim>\<open>en-US\<close>; an inherited
  built-in has no property \<^verbatim>\<open>errorResponse\<close>, and the template prints
  \<^verbatim>\<open>undefined\<close>.\<close>

definition errorResponse :: "string \<Rightarrow> string" where
  "errorResponse language =
     (if language = ''zh-CN'' then errorResponse_zh_CN
      else if language = ''en-US'' then errorResponse_en_US
      else if language \<in> set Object_prototype_keys then ''undefined''
      else errorResponse_en_US)"

text \<open>The error thrown by \<^verbatim>\<open>response.data.response\<close> when a successful reply carries
  no data.\<close>

definition data_undefined_error :: string where
  "data_undefined_error =
     ''Cannot read properties of undefined (reading '' @ [CHR 0x27] @ ''response''
       @ [CHR 0x27] @ '')''"

text \<open>
  \<^verbatim>\<open>sendChatMessage\<close>, from the trimmed input text \<open>input\<close> on. \<open>check\<close> is the outcome
  of \<^verbatim>\<open>checkExtensionConnection\<close> (\<open>Some msg\<close>: it threw), and the message is delivered
  to the background listener.
\<close>

definition sendChatMessage ::
  "'j env \<Rightarrow> string option \<Rightarrow> string
     \<Rightarrow> ContentScript \<times> 'j trace \<times> 'j SolscanAIAssistant option
     \<Rightarrow> ContentScript \<times> 'j trace \<times> 'j SolscanAIAssistant option" where
  "sendChatMessage env check input s =
     (case s of (ui, tr, a) \<Rightarrow>
        if input = [] then (ui, tr, a)
        else
          let ui1 = addChatMessage ''user'' input ui
          in (case check of
                Some msg \<Rightarrow>
                  (addChatMessage ''ai'' (errorResponse (currentLanguage ui1) @ msg) ui1, tr, a)
              | None \<Rightarrow>
                  (case onMessage_chatWithTransaction env
                          \<lparr>request_action = ''chatWithTransaction'',
                           request_signature = transactionSignature ui1,
                           request_message = Some input,
                           request_history = Some (conversationHistory ui1)\<rparr> (tr, a) of
                     (reply, tr', a') \<Rightarrow>
                       if success reply then
                         (case data reply of
                            Some d \<Rightarrow>
                              ((addChatMessage ''ai'' (response d) ui1)
                                 \<lparr>conversationHistory := conversationHistory ui1
                                    @ [\<lparr>msg_role = user, msg_content = input\<rparr>,
                                       \<lparr>msg_role = assistant, msg_content = response d\<rparr>]\<rparr>,
                               tr', a')
                          | None \<Rightarrow>
                              (addChatMessage ''ai''
                                 (errorResponse (currentLanguage ui1) @ data_undefined_error) ui1,
                               tr', a'))
                       else
                         (addChatMessage ''ai''
                            (errorResponse (currentLanguage ui1)
                               @ (case response_error reply of
                                    None \<Rightarrow> [] | Some msg \<Rightarrow> msg)) ui1,
                          tr', a'))))"

section \<open>Reading a trace\<close>

text \<open>The model calls of a trace, the tool-service event of a requested call, and the tool
  invocations of a trace.\<close>

fun model_calls :: "'j trace \<Rightarrow> 'j Request list" where
  "model_calls [] = []"
| "model_calls (GenerateContent r # es) = r # model_calls es"
| "model_calls (e # es) = model_calls es"

definition tool_event :: "'j FunctionCall \<Rightarrow> 'j event" where
  "tool_event c = McpCallTool (call_name c) (call_args c)"

fun tool_invocations :: "'j trace \<Rightarrow> (string \<times> 'j) list" where
  "tool_invocations [] = []"
| "tool_invocations (McpCallTool n a # es) = (n, a) # tool_invocations es"
| "tool_invocations (e # es) = tool_invocations es"

text \<open>Two states of the assistant hold the same client handle, tool list and schema.\<close>

definition same_registry :: "'j SolscanAIAssistant \<Rightarrow> 'j SolscanAIAssistant \<Rightarrow> bool" where
  "same_registry st st' =
     (mcpClient st' = mcpClient st \<and> mcpTools st' = mcpTools st
        \<and> geminiTools st' = geminiTools st)"

text \<open>An assistant with a model client has its settings loaded. The operations keep this,
  so the settings that the theorems on a configured assistant assume are there in every
  state that the assistant reaches.\<close>

definition client_has_settings :: "'j SolscanAIAssistant \<Rightarrow> bool" where
  "client_has_settings st = (genAI st = None \<or> settings st \<noteq> None)"

section \<open>A concrete session\<close>

text \<open>
  The scenario of a chat about the transaction \<^verbatim>\<open>SIG123\<close> in English, with JSON values
  kept as their text. The tool service offers \<^verbatim>\<open>get_solana_transaction\<close> and knows no
  other tool. The model asks for that tool and for an unknown one on its first call and
  answers on every later call, again with a request for a tool.
\<close>

definition example_settings :: Settings where
  "example_settings =
     \<lparr>geminiApiKey = ''KEY'', mcpUrl = ''https://mcp.example/mcp'',
      geminiModel = ''gemini-2.5-pro'', temperature = 0.7, maxTokens = 2048,
      responseLanguage = ''en-US''\<rparr>"

definition example_tool :: "string MCPTool" where
  "example_tool =
     \<lparr>tool_name = ''get_solana_transaction'', tool_description = None, inputSchema = None\<rparr>"

definition example_call :: "string FunctionCall" where
  "example_call = \<lparr>call_name = ''get_solana_transaction'', call_args = ''{signature: SIG123}''\<rparr>"

definition unknown_call :: "string FunctionCall" where
  "unknown_call = \<lparr>call_name = ''get_block'', call_args = ''{}''\<rparr>"

definition respond :: "string Part list \<Rightarrow> string GenerateContentResponse" where
  "respond ps = \<lparr>candidates = Some [\<lparr>content = Some \<lparr>parts = Some ps\<rparr>\<rparr>]\<rparr>"

definition example_env :: "string env" where
  "example_env =
     \<lparr>storage_get = (\<lambda>tr. Inr
        \<lparr>stored_geminiApiKey = Some ''KEY'', stored_mcpUrl = Some ''https://mcp.example/mcp'',
         stored_geminiModel = None, stored_temperature = None, stored_maxTokens = None,
         stored_responseLanguage = Some ''en-US''\<rparr>),
      new_GoogleGenAI = (\<lambda>k. True),
      new_URL = (\<lambda>u. True),
      connect = (\<lambda>tr u. None),
      listTools = (\<lambda>tr. Inr (Some [example_tool])),
      callTool = (\<lambda>tr n a. if n = ''get_solana_transaction'' then Inr ''{fee: 5000}''
                              else Inl ''Unknown tool''),
      generateContent = (\<lambda>tr r.
        if model_calls tr = []
        then Inr (respond [\<lparr>part_text = None, functionCall = Some example_call\<rparr>,
                           \<lparr>part_text = None, functionCall = Some unknown_call\<rparr>])
        else Inr (respond [\<lparr>part_text = Some ''The fee was 0.000005 SOL.'', functionCall = None\<rparr>,
                           \<lparr>part_text = None, functionCall = Some example_call\<rparr>])),
      stringify = (\<lambda>v. v),
      builtin_text = (\<lambda>k. ''[object Object]'')\<rparr>"

text \<open>The same world with a model that answers in plain text, with a model that is
  unreachable, and with a tool service that is unreachable or offers nothing.\<close>

definition plain_env :: "string env" where
  "plain_env = example_env\<lparr>generateContent := (\<lambda>tr r.
     Inr (respond [\<lparr>part_text = Some ''A transfer of 1 SOL.'', functionCall = None\<rparr>]))\<rparr>"

definition offline_env :: "string env" where
  "offline_env = example_env\<lparr>generateContent := (\<lambda>tr r. Inl ''fetch failed'')\<rparr>"

definition no_service_env :: "string env" where
  "no_service_env = plain_env\<lparr>connect := (\<lambda>tr u. Some ''connection refused'')\<rparr>"

definition no_tools_env :: "string env" where
  "no_tools_env = plain_env\<lparr>listTools := (\<lambda>tr. Inr (Some []))\<rparr>"

definition configured :: "string SolscanAIAssistant" where
  "configured =
     \<lparr>genAI = Some \<lparr>apiKey = ''KEY''\<rparr>, settings = Some example_settings,
      mcpTools = None, mcpClient = None, geminiTools = None\<rparr>"

definition example_page :: ContentScript where
  "example_page =
     \<lparr>transactionSignature = Some ''SIG123'',
      conversationHistory = [\<lparr>msg_role = user, msg_content = ''Who signed?''\<rparr>,
                             \<lparr>msg_role = assistant, msg_content = ''One signer.''\<rparr>],
      currentLanguage = ''en-US'', chatMessages = []\<rparr>"

text \<open>The assistant after a successful discovery, and the events of that discovery.\<close>

definition discovered :: "string SolscanAIAssistant" where
  "discovered =
     configured
       \<lparr>mcpClient := Some \<lparr>client_name = ''solscan-ai-extension'', client_version = ''1.0.0''\<rparr>,
        mcpTools := Some [example_tool],
        geminiTools := convertMCPToolsToGemini (Some [example_tool])\<rparr>"

definition discovery_trace :: "string trace" where
  "discovery_trace = [McpConnect ''https://mcp.example/mcp'', McpListTools]"

text \<open>The outcomes of the two tool calls that the model requests in this scenario.\<close>

definition example_results :: "string ToolResult list" where
  "example_results =
     [\<lparr>tool = ''get_solana_transaction'', result = Some ''{fee: 5000}'', error = None\<rparr>,
      \<lparr>tool = ''get_block'', result = None, error = Some ''Unknown tool''\<rparr>]"

text \<open>A browser with empty storage, and the assistant that \<^verbatim>\<open>init\<close> leaves there.\<close>

definition no_key_env :: "string env" where
  "no_key_env = example_env\<lparr>storage_get := (\<lambda>tr. Inr
     \<lparr>stored_geminiApiKey = None, stored_mcpUrl = None, stored_geminiModel = None,
      stored_temperature = None, stored_maxTokens = None, stored_responseLanguage = None\<rparr>)\<rparr>"

definition unconfigured :: "string SolscanAIAssistant" where
  "unconfigured =
     \<lparr>genAI = None,
      settings = Some
        \<lparr>geminiApiKey = [], mcpUrl = [], geminiModel = ''gemini-2.5-pro'', temperature = 0.7,
         maxTokens = 2048, responseLanguage = ''zh-CN''\<rparr>,
      mcpTools = None, mcpClient = None, geminiTools = None\<rparr>"

text \<open>The assistant after a discovery that found no tool, and after one whose
  \<^verbatim>\<open>connect\<close> failed.\<close>

definition discovered_nothing :: "string SolscanAIAssistant" where
  "discovered_nothing =
     configured
       \<lparr>mcpClient := Some \<lparr>client_name = ''solscan-ai-extension'', client_version = ''1.0.0''\<rparr>,
        mcpTools := Some []\<rparr>"

definition latched :: "string SolscanAIAssistant" where
  "latched =
     configured
       \<lparr>mcpClient := Some \<lparr>client_name = ''solscan-ai-extension'', client_version = ''1.0.0''\<rparr>\<rparr>"

text \<open>The request that the summarize operation sends in this scenario.\<close>

definition example_summary_request :: "string Request" where
  "example_summary_request =
     \<lparr>model = ''gemini-2.5-pro'',
      config = \<lparr>generationConfig = \<lparr>config_temperature = 0.7, maxOutputTokens = 2048\<rparr>,
                tools = None\<rparr>,
      contents = [\<lparr>turn_role = ''user'',
                   turn_parts = [Str (summary_en_US_1 @ ''SIG123'' @ summary_en_US_2)]\<rparr>]\<rparr>"

section \<open>Basic facts\<close>

subsection \<open>Traces\<close>

lemma model_calls_append: "model_calls (xs @ ys) = model_calls xs @ model_calls ys"
  by (induction xs rule: model_calls.induct) simp_all

lemma model_calls_tool_events: "model_calls (map tool_event calls) = []"
  by (induction calls) (simp_all add: tool_event_def)

lemma tool_invocations_append:
  "tool_invocations (xs @ ys) = tool_invocations xs @ tool_invocations ys"
  by (induction xs rule: tool_invocations.induct) simp_all

subsection \<open>Discovery\<close>

lemma loadMCPTools_latched: "mcpClient st \<noteq> None \<Longrightarrow> loadMCPTools env (tr, st) = (tr, st)"
  by (auto simp: loadMCPTools_def split: option.splits)

lemma loadMCPTools_keeps:
  "settings (snd (loadMCPTools env (tr, st))) = settings st"
  "genAI (snd (loadMCPTools env (tr, st))) = genAI st"
  by (auto simp: loadMCPTools_def Let_def split: option.splits sum.splits)

lemma loadMCPTools_model_calls:
  "model_calls (fst (loadMCPTools env (tr, st))) = model_calls tr"
  by (auto simp: loadMCPTools_def Let_def model_calls_append split: option.splits sum.splits)

lemma loadMCPTools_tool_invocations:
  "tool_invocations (fst (loadMCPTools env (tr, st))) = tool_invocations tr"
  by (auto simp: loadMCPTools_def Let_def tool_invocations_append split: option.splits sum.splits)

lemma loadMCPTools_no_tools:
  assumes "settings st = Some cfg"
    and "geminiTools st = None"
    and "mcpUrl cfg = [] \<or> mcpClient st \<noteq> None \<or> \<not> new_URL env (mcpUrl cfg)
         \<or> connect env tr (mcpUrl cfg) \<noteq> None
         \<or> (\<exists>err. listTools env (tr @ [McpConnect (mcpUrl cfg)]) = Inl err)
         \<or> listTools env (tr @ [McpConnect (mcpUrl cfg)]) = Inr None
         \<or> listTools env (tr @ [McpConnect (mcpUrl cfg)]) = Inr (Some [])"
  shows "geminiTools (snd (loadMCPTools env (tr, st))) = None"
  using assms
  by (auto simp: loadMCPTools_def Let_def convertMCPToolsToGemini_def
        split: option.splits sum.splits)

lemma loadMCPTools_attempt:
  assumes "settings st = Some cfg"
    and "mcpUrl cfg \<noteq> []"
    and "mcpClient st = None"
    and "new_URL env (mcpUrl cfg)"
  shows "mcpClient (snd (loadMCPTools env (tr, st))) \<noteq> None"
    and "\<exists>rest. fst (loadMCPTools env (tr, st)) = tr @ McpConnect (mcpUrl cfg) # rest"
    and "connect env tr (mcpUrl cfg) \<noteq> None
           \<or> (\<exists>err. listTools env (tr @ [McpConnect (mcpUrl cfg)]) = Inl err) \<Longrightarrow>
         mcpTools (snd (loadMCPTools env (tr, st))) = mcpTools st \<and>
         geminiTools (snd (loadMCPTools env (tr, st))) = geminiTools st"
  using assms
  by (auto simp: loadMCPTools_def Let_def split: option.splits sum.splits)

lemma ensure_tools_keeps:
  "settings (snd (ensure_tools env (tr, st))) = settings st"
  "genAI (snd (ensure_tools env (tr, st))) = genAI st"
  "model_calls (fst (ensure_tools env (tr, st))) = model_calls tr"
  by (simp_all add: ensure_tools_def loadMCPTools_keeps loadMCPTools_model_calls)

lemma ensure_tools_tool_invocations:
  "tool_invocations (fst (ensure_tools env (tr, st))) = tool_invocations tr"
  by (simp add: ensure_tools_def loadMCPTools_tool_invocations)

lemma initializeGemini_keeps:
  "mcpClient (initializeGemini env st) = mcpClient st"
  "mcpTools (initializeGemini env st) = mcpTools st"
  "geminiTools (initializeGemini env st) = geminiTools st"
  by (simp_all add: initializeGemini_def split: option.splits)

lemma reloadSettings_latched:
  assumes "mcpClient st \<noteq> None"
  shows "fst (snd (reloadSettings env (tr, st))) = tr @ [StorageGet] \<and>
         same_registry st (snd (snd (reloadSettings env (tr, st))))"
proof (cases "storage_get env tr")
  case (Inl err)
  then show ?thesis
    by (simp add: reloadSettings_def loadSettings_def same_registry_def)
next
  case (Inr res)
  define st1 where "st1 = snd (snd (loadSettings env (tr, st)))"
  have load: "loadSettings env (tr, st) = (Inr (), tr @ [StorageGet], st1)"
    using Inr by (simp add: st1_def loadSettings_def)
  have keep: "mcpClient st1 = mcpClient st" "mcpTools st1 = mcpTools st"
    "geminiTools st1 = geminiTools st"
    using Inr by (simp_all add: st1_def loadSettings_def)
  have "mcpClient (initializeGemini env st1) \<noteq> None"
    using assms keep by (simp add: initializeGemini_keeps)
  then have "loadMCPTools env (tr @ [StorageGet], initializeGemini env st1) =
               (tr @ [StorageGet], initializeGemini env st1)"
    by (rule loadMCPTools_latched)
  then show ?thesis
    using load keep by (simp add: reloadSettings_def initializeGemini_keeps same_registry_def)
qed

lemma init_latched:
  assumes "mcpClient st \<noteq> None"
  shows "fst (init env (tr, st)) = tr @ [StorageGet] \<and> same_registry st (snd (init env (tr, st)))"
proof (cases "storage_get env tr")
  case (Inl err)
  then show ?thesis
    by (simp add: init_def loadSettings_def same_registry_def)
next
  case (Inr res)
  define st1 where "st1 = snd (snd (loadSettings env (tr, st)))"
  have load: "loadSettings env (tr, st) = (Inr (), tr @ [StorageGet], st1)"
    using Inr by (simp add: st1_def loadSettings_def)
  have keep: "mcpClient st1 = mcpClient st" "mcpTools st1 = mcpTools st"
    "geminiTools st1 = geminiTools st"
    using Inr by (simp_all add: st1_def loadSettings_def)
  have "mcpClient (initializeGemini env st1) \<noteq> None"
    using assms keep by (simp add: initializeGemini_keeps)
  then have "loadMCPTools env (tr @ [StorageGet], initializeGemini env st1) =
               (tr @ [StorageGet], initializeGemini env st1)"
    by (rule loadMCPTools_latched)
  then show ?thesis
    using load keep by (simp add: init_def initializeGemini_keeps same_registry_def)
qed

subsection \<open>The loop over the requested calls\<close>

lemma execute_tool_calls_tools:
  "map tool (fst (execute_tool_calls env st calls (acc, tr))) = map tool acc @ map call_name calls"
  by (induction calls arbitrary: acc tr)
     (auto simp: callMCPTool_def split: option.splits sum.splits prod.splits)

lemma execute_tool_calls_trace:
  "snd (execute_tool_calls env st calls (acc, tr)) =
     tr @ (if mcpClient st = None then [] else map tool_event calls)"
  by (induction calls arbitrary: acc tr)
     (auto simp: callMCPTool_def tool_event_def split: option.splits sum.splits prod.splits)

lemma execute_tool_calls_extends:
  "execute_tool_calls env st calls (acc, tr) = (results, tr') \<Longrightarrow> \<exists>more. tr' = tr @ more"
  using execute_tool_calls_trace [of env st calls acc tr] by auto

subsection \<open>The prompt builders\<close>

lemma summary_prompt_cases:
  "getTransactionSummaryPrompt signature language =
     (if language = ''zh-CN'' then Str (summary_zh_CN_1 @ signature @ summary_zh_CN_2)
      else if language = ''en-US'' then Str (summary_en_US_1 @ signature @ summary_en_US_2)
      else if language = ''ja-JP'' then Str (summary_ja_JP_1 @ signature @ summary_ja_JP_2)
      else if language = ''ko-KR'' then Str (summary_ko_KR_1 @ signature @ summary_ko_KR_2)
      else if language \<in> set Object_prototype_keys then Builtin language
      else Str (summary_en_US_1 @ signature @ summary_en_US_2))"
  by (simp add: getTransactionSummaryPrompt_def get_property_def js_or_def summary_zh_CN_1_def
        summary_en_US_1_def summary_ja_JP_1_def summary_ko_KR_1_def)

lemma chat_prompt_cases:
  "getChatPrompt signature userMessage hist language =
     (let history =
        join ''\<newline>'' (map (\<lambda>msg. role_name (msg_role msg) @ '': '' @ msg_content msg) hist)
      in if language = ''zh-CN''
         then Str (chat_zh_CN_1 @ signature @ chat_zh_CN_2 @ history @ chat_zh_CN_3
                     @ userMessage @ chat_zh_CN_4)
         else if language = ''en-US''
         then Str (chat_en_US_1 @ signature @ chat_en_US_2 @ history @ chat_en_US_3
                     @ userMessage @ chat_en_US_4)
         else if language = ''ja-JP''
         then Str (chat_ja_JP_1 @ signature @ chat_ja_JP_2 @ history @ chat_ja_JP_3
                     @ userMessage @ chat_ja_JP_4)
         else if language = ''ko-KR''
         then Str (chat_ko_KR_1 @ signature @ chat_ko_KR_2 @ history @ chat_ko_KR_3
                     @ userMessage @ chat_ko_KR_4)
         else if language \<in> set Object_prototype_keys then Builtin language
         else Str (chat_en_US_1 @ signature @ chat_en_US_2 @ history @ chat_en_US_3
                     @ userMessage @ chat_en_US_4))"
  by (simp add: getChatPrompt_def get_property_def js_or_def Let_def chat_zh_CN_1_def
        chat_en_US_1_def chat_ja_JP_1_def chat_ko_KR_1_def)

lemma getTransactionSummaryPrompt_en_US:
  "getTransactionSummaryPrompt signature ''en-US'' =
     Str (summary_en_US_1 @ signature @ summary_en_US_2)"
  by (simp add: getTransactionSummaryPrompt_def get_property_def js_or_def summary_en_US_1_def)

lemma getChatPrompt_en_US:
  "getChatPrompt signature userMessage [] ''en-US'' =
     Str (chat_en_US_1 @ signature @ chat_en_US_2 @ chat_en_US_3 @ userMessage @ chat_en_US_4)"
  by (simp add: getChatPrompt_def get_property_def js_or_def chat_en_US_1_def)

lemma finalPromptAddition_en_US:
  "finalPromptAddition resultsText ''en-US'' =
     Str (addition_en_US_1 @ resultsText @ addition_en_US_2)"
  by (simp add: finalPromptAddition_def get_property_def js_or_def addition_en_US_1_def)

text \<open>What holds of the prompt builders: for a language code that is not the name of a
  member of \<^verbatim>\<open>Object.prototype\<close>, both return a non-empty string that contains the
  signature, and for a code outside the table it is the English template.\<close>

lemma prompt_builders_on_other_codes:
  assumes "language \<notin> set Object_prototype_keys"
  shows "(\<exists>s. getTransactionSummaryPrompt signature language = Str s \<and> s \<noteq> []
              \<and> sublist signature s) \<and>
         (\<exists>s. getChatPrompt signature userMessage hist language = Str s \<and> s \<noteq> []
              \<and> sublist signature s) \<and>
         (language \<notin> {''zh-CN'', ''en-US'', ''ja-JP'', ''ko-KR''} \<longrightarrow>
            getTransactionSummaryPrompt signature language =
              getTransactionSummaryPrompt signature ''en-US'' \<and>
            getChatPrompt signature userMessage hist language =
              getChatPrompt signature userMessage hist ''en-US'')"
proof -
  have nonempty: "summary_zh_CN_1 \<noteq> []" "summary_en_US_1 \<noteq> []" "summary_ja_JP_1 \<noteq> []"
    "summary_ko_KR_1 \<noteq> []" "chat_zh_CN_1 \<noteq> []" "chat_en_US_1 \<noteq> []" "chat_ja_JP_1 \<noteq> []"
    "chat_ko_KR_1 \<noteq> []"
    by (simp_all add: summary_zh_CN_1_def summary_en_US_1_def summary_ja_JP_1_def
          summary_ko_KR_1_def chat_zh_CN_1_def chat_en_US_1_def chat_ja_JP_1_def
          chat_ko_KR_1_def)
  have inside: "\<And>a b. sublist signature (a @ signature @ b)"
    by (rule sublist_appendI)
  show ?thesis
    using assms nonempty inside
    by (simp add: summary_prompt_cases chat_prompt_cases Let_def)
qed

lemma final_addition_cases:
  "finalPromptAddition resultsText language =
     (if language = ''zh-CN'' then Str (addition_zh_CN_1 @ resultsText @ addition_zh_CN_2)
      else if language = ''en-US'' then Str (addition_en_US_1 @ resultsText @ addition_en_US_2)
      else if language = ''ja-JP'' then Str (addition_ja_JP_1 @ resultsText @ addition_ja_JP_2)
      else if language = ''ko-KR'' then Str (addition_ko_KR_1 @ resultsText @ addition_ko_KR_2)
      else if language \<in> set Object_prototype_keys then Builtin language
      else Str (addition_en_US_1 @ resultsText @ addition_en_US_2))"
  by (simp add: finalPromptAddition_def get_property_def js_or_def addition_zh_CN_1_def
        addition_en_US_1_def addition_ja_JP_1_def addition_ko_KR_1_def)

subsection \<open>The chat operation, case by case\<close>

lemma chat_not_configured:
  "genAI st = None \<Longrightarrow>
     chatWithTransaction env signature userMessage hist language (tr, st) =
       (Inl ''Gemini AI not initialized'', tr, st)"
  by (simp add: chatWithTransaction_def)

lemma chat_no_settings:
  assumes "genAI st = Some ai"
    and "ensure_tools env (tr, st) = (tr1, st1)"
    and "settings st1 = None"
  shows "chatWithTransaction env signature userMessage hist language (tr, st) =
           (Inl settings_null_error, tr1, st1)"
  using assms by (simp add: chatWithTransaction_def)

lemma chat_first_call_fails:
  assumes "genAI st = Some ai"
    and "ensure_tools env (tr, st) = (tr1, st1)"
    and "settings st1 = Some cfg"
    and "generateContent env tr1
           (drafting_request cfg (geminiTools st1) signature userMessage hist) = Inl err"
  shows "chatWithTransaction env signature userMessage hist language (tr, st) =
           (Inl err,
            tr1 @ [GenerateContent
                     (drafting_request cfg (geminiTools st1) signature userMessage hist)],
            st1)"
  using assms by (simp add: chatWithTransaction_def Let_def)

lemma chat_plain:
  assumes "genAI st = Some ai"
    and "ensure_tools env (tr, st) = (tr1, st1)"
    and "settings st1 = Some cfg"
    and "generateContent env tr1
           (drafting_request cfg (geminiTools st1) signature userMessage hist) = Inr resp"
    and "function_calls (response_parts resp) = []"
  shows "chatWithTransaction env signature userMessage hist language (tr, st) =
           (Inr \<lparr>response = text_or [] (response_parts resp), toolCalls = [], toolResults = []\<rparr>,
            tr1 @ [GenerateContent
                     (drafting_request cfg (geminiTools st1) signature userMessage hist)],
            st1)"
  using assms by (simp add: chatWithTransaction_def Let_def)

lemma chat_tools:
  assumes "genAI st = Some ai"
    and "ensure_tools env (tr, st) = (tr1, st1)"
    and "settings st1 = Some cfg"
    and "req = drafting_request cfg (geminiTools st1) signature userMessage hist"
    and "generateContent env tr1 req = Inr resp"
    and "function_calls (response_parts resp) = calls"
    and "calls \<noteq> []"
    and "execute_tool_calls env st1 calls ([], tr1 @ [GenerateContent req]) = (results, tr3)"
    and "finalReq = finalizing_request env cfg (geminiTools st1) signature userMessage results"
  shows "chatWithTransaction env signature userMessage hist language (tr, st) =
           (case generateContent env tr3 finalReq of
              Inl err \<Rightarrow> Inl err
            | Inr finalResponse \<Rightarrow>
                Inr \<lparr>response = text_or [] (response_parts finalResponse),
                     toolCalls = calls, toolResults = results\<rparr>,
            tr3 @ [GenerateContent finalReq], st1)"
  using assms by (simp add: chatWithTransaction_def Let_def split: sum.splits)

lemma chat_final_state:
  "snd (snd (chatWithTransaction env signature userMessage hist language (tr, st))) =
     (if genAI st = None then st else snd (ensure_tools env (tr, st)))"
  by (auto simp: chatWithTransaction_def Let_def split: option.splits sum.splits prod.splits)

lemma summary_final_state:
  "snd (snd (generateTransactionSummary env signature (tr, st))) = st"
  by (auto simp: generateTransactionSummary_def Let_def split: option.splits sum.splits)

subsection \<open>The settings of a configured assistant\<close>

lemma client_has_settings_new: "client_has_settings new_SolscanAIAssistant"
  by (simp add: client_has_settings_def new_SolscanAIAssistant_def)

lemma client_has_settings_steps:
  assumes "client_has_settings st"
  shows "client_has_settings (snd (snd (loadSettings env (tr, st))))"
    and "client_has_settings (initializeGemini env st)"
    and "client_has_settings (snd (loadMCPTools env (tr, st)))"
    and "client_has_settings (snd (reloadMCPTools env (tr, st)))"
  using assms
  by (auto simp: client_has_settings_def loadSettings_def initializeGemini_def
        reloadMCPTools_def loadMCPTools_keeps split: sum.splits option.splits)

lemma client_has_settings_operations:
  assumes "client_has_settings st"
  shows "client_has_settings (snd (init env (tr, st)))"
    and "client_has_settings (snd (snd (reloadSettings env (tr, st))))"
    and "client_has_settings (snd (snd (generateTransactionSummary env signature (tr, st))))"
    and "client_has_settings
           (snd (snd (chatWithTransaction env signature userMessage hist language (tr, st))))"
proof -
  obtain r tr1 st1 where load: "loadSettings env (tr, st) = (r, tr1, st1)"
    by (cases "loadSettings env (tr, st)")
  have st1: "client_has_settings st1"
    using client_has_settings_steps(1) [OF assms, of env tr] load by simp
  have next_step: "client_has_settings (snd (loadMCPTools env (tr1, initializeGemini env st1)))"
    by (intro client_has_settings_steps(3) client_has_settings_steps(2) st1)
  show "client_has_settings (snd (init env (tr, st)))"
    using load st1 next_step by (cases r) (simp_all add: init_def)
  show "client_has_settings (snd (snd (reloadSettings env (tr, st))))"
    using load st1 next_step by (cases r) (simp_all add: reloadSettings_def split: prod.splits)
  show "client_has_settings (snd (snd (generateTransactionSummary env signature (tr, st))))"
    using assms by (simp add: summary_final_state)
  show "client_has_settings
          (snd (snd (chatWithTransaction env signature userMessage hist language (tr, st))))"
    using assms client_has_settings_steps(3) [OF assms, of env tr]
    by (simp add: chat_final_state ensure_tools_def)
qed

lemma client_has_settings_chat:
  assumes "client_has_settings st" and "genAI st = Some ai"
  shows "\<exists>cfg. settings (snd (ensure_tools env (tr, st))) = Some cfg"
  using assms by (auto simp: client_has_settings_def ensure_tools_keeps)

subsection \<open>The concrete session\<close>

lemma function_calls_respond:
  "function_calls (response_parts (respond ps)) = List.map_filter functionCall ps"
  by (simp add: function_calls_def response_parts_def respond_def)

lemma ensure_tools_example:
  "ensure_tools example_env ([], configured) = (discovery_trace, discovered)"
  by (simp add: ensure_tools_def loadMCPTools_def configured_def example_settings_def
        example_env_def discovered_def discovery_trace_def Let_def)

lemma example_first_response:
  "generateContent example_env discovery_trace r =
     Inr (respond [\<lparr>part_text = None, functionCall = Some example_call\<rparr>,
                   \<lparr>part_text = None, functionCall = Some unknown_call\<rparr>])"
  by (simp add: example_env_def discovery_trace_def)

lemma example_first_calls:
  "function_calls (response_parts
     (respond [\<lparr>part_text = None, functionCall = Some example_call\<rparr>,
               \<lparr>part_text = None, functionCall = Some unknown_call\<rparr>])) =
   [example_call, unknown_call]"
  by (simp add: function_calls_respond List.map_filter_simps)

lemma example_tool_round:
  "execute_tool_calls example_env discovered [example_call, unknown_call] ([], t) =
     (example_results, t @ [tool_event example_call, tool_event unknown_call])"
  by (simp add: callMCPTool_def discovered_def example_env_def example_call_def unknown_call_def
        example_results_def tool_event_def)

lemma example_finalPrompt:
  "finalPrompt example_env example_settings ''SIG123'' ''What fee was paid?'' example_results =
     chat_en_US_1 @ ''SIG123'' @ chat_en_US_2 @ chat_en_US_3 @ ''What fee was paid?''
       @ chat_en_US_4 @ addition_en_US_1
       @ ''Tool: get_solana_transaction\<newline>Result: {fee: 5000}\<newline>\<newline>Tool: get_block\<newline>Result: undefined''
       @ addition_en_US_2"
  by (simp add: finalPrompt_def example_settings_def getChatPrompt_en_US finalPromptAddition_en_US
        js_plus_def toolResultsText_def tool_result_text_def example_results_def example_env_def)

lemma ensure_tools_plain:
  "ensure_tools plain_env ([], configured) = (discovery_trace, discovered)"
  by (simp add: ensure_tools_def loadMCPTools_def configured_def example_settings_def
        plain_env_def example_env_def discovered_def discovery_trace_def Let_def)

lemma plain_response:
  "generateContent plain_env t r =
     Inr (respond [\<lparr>part_text = Some ''A transfer of 1 SOL.'', functionCall = None\<rparr>])"
  by (simp add: plain_env_def)

lemma plain_answer:
  "function_calls (response_parts
     (respond [\<lparr>part_text = Some ''A transfer of 1 SOL.'', functionCall = None\<rparr>])) = []"
  "text_or [] (response_parts
     (respond [\<lparr>part_text = Some ''A transfer of 1 SOL.'', functionCall = None\<rparr>])) =
   ''A transfer of 1 SOL.''"
  by (simp_all add: function_calls_def List.map_filter_simps text_or_def response_parts_def
        respond_def)

lemma ensure_tools_offline:
  "ensure_tools offline_env ([], configured) = (discovery_trace, discovered)"
  by (simp add: ensure_tools_def loadMCPTools_def configured_def example_settings_def
        offline_env_def example_env_def discovered_def discovery_trace_def Let_def)

lemma offline_response: "generateContent offline_env t r = Inl ''fetch failed''"
  by (simp add: offline_env_def)

lemma init_no_key: "init no_key_env ([], new_SolscanAIAssistant) = ([StorageGet], unconfigured)"
  by (simp add: init_def loadSettings_def initializeGemini_def loadMCPTools_def no_key_env_def
        example_env_def new_SolscanAIAssistant_def unconfigured_def or_string_def)

lemma ensure_tools_no_tools:
  "ensure_tools no_tools_env ([], configured) = (discovery_trace, discovered_nothing)"
  by (simp add: ensure_tools_def loadMCPTools_def configured_def example_settings_def
        no_tools_env_def plain_env_def example_env_def discovered_nothing_def
        discovery_trace_def convertMCPToolsToGemini_def Let_def)

lemma no_tools_response:
  "generateContent no_tools_env t r =
     Inr (respond [\<lparr>part_text = Some ''A transfer of 1 SOL.'', functionCall = None\<rparr>])"
  by (simp add: no_tools_env_def plain_env_def)

lemma loadMCPTools_no_service:
  "loadMCPTools no_service_env ([], configured) =
     ([McpConnect ''https://mcp.example/mcp''], latched)"
  by (simp add: loadMCPTools_def configured_def example_settings_def no_service_env_def
        plain_env_def example_env_def latched_def Let_def)

section \<open>The claims\<close>

text \<open>
  C1. When the first model response of a chat exchange requests \<open>N \<ge> 1\<close> tool calls, the
  tool invoker runs once per request, in request order: there is one outcome per request,
  named in request order, and the calls reach the tool service one after another in that
  order (they all fail before reaching it when no client handle exists). Then exactly one
  more model call follows, and its contents are one user turn; the transcript is not sent
  again. The text of that turn is the prompt that ended the first call, followed by the
  tool-results section of the response language: the heading of that language, the
  outcomes in order, each as \<^verbatim>\<open>Tool:\<close> name and \<^verbatim>\<open>Result:\<close> serialized result,
  separated by blank lines, and the closing request of that language. English is used
  for a language outside the table; for a language code that names a member of
  \<^verbatim>\<open>Object.prototype\<close> both parts are that member, converted to text.
\<close>

theorem chat_tool_round:
  assumes "genAI st = Some ai"
    and "ensure_tools env (tr, st) = (tr1, st1)"
    and "settings st1 = Some cfg"
    and "req = drafting_request cfg (geminiTools st1) signature userMessage hist"
    and "generateContent env tr1 req = Inr resp"
    and "function_calls (response_parts resp) = calls"
    and "calls \<noteq> []"
  shows "\<exists>results.
           map tool results = map call_name calls \<and>
           fst (snd (chatWithTransaction env signature userMessage hist language (tr, st))) =
             tr1 @ [GenerateContent req]
               @ (if mcpClient st1 = None then [] else map tool_event calls)
               @ [GenerateContent
                    (finalizing_request env cfg (geminiTools st1) signature userMessage results)] \<and>
           model_calls
               (fst (snd (chatWithTransaction env signature userMessage hist language (tr, st)))) =
             model_calls tr
               @ [req, finalizing_request env cfg (geminiTools st1) signature userMessage results] \<and>
           contents (finalizing_request env cfg (geminiTools st1) signature userMessage results) =
             [\<lparr>turn_role = ''user'',
               turn_parts = [Str (finalPrompt env cfg signature userMessage results)]\<rparr>] \<and>
           results = fst (execute_tool_calls env st1 calls ([], tr1 @ [GenerateContent req])) \<and>
           last (contents req) =
             \<lparr>turn_role = ''user'',
              turn_parts = [getChatPrompt signature userMessage [] (responseLanguage cfg)]\<rparr> \<and>
           finalPrompt env cfg signature userMessage results =
             to_primitive (builtin_text env)
                 (getChatPrompt signature userMessage [] (responseLanguage cfg))
               @ to_primitive (builtin_text env)
                   (finalPromptAddition (toolResultsText env results) (responseLanguage cfg)) \<and>
           toolResultsText env results =
             join ''\<newline>\<newline>''
               (map (\<lambda>r. ''Tool: '' @ tool r @ ''\<newline>Result: ''
                           @ (case result r of
                                None \<Rightarrow> ''undefined'' | Some v \<Rightarrow> stringify env v)) results) \<and>
           (responseLanguage cfg \<notin> set Object_prototype_keys \<longrightarrow>
              (\<exists>prompt.
                 getChatPrompt signature userMessage [] (responseLanguage cfg) = Str prompt \<and>
                 finalPrompt env cfg signature userMessage results =
                   prompt
                     @ (if responseLanguage cfg = ''zh-CN''
                        then addition_zh_CN_1 @ toolResultsText env results @ addition_zh_CN_2
                        else if responseLanguage cfg = ''ja-JP''
                        then addition_ja_JP_1 @ toolResultsText env results @ addition_ja_JP_2
                        else if responseLanguage cfg = ''ko-KR''
                        then addition_ko_KR_1 @ toolResultsText env results @ addition_ko_KR_2
                        else addition_en_US_1 @ toolResultsText env results
                               @ addition_en_US_2))) \<and>
           (responseLanguage cfg \<in> set Object_prototype_keys \<longrightarrow>
              finalPrompt env cfg signature userMessage results =
                builtin_text env (responseLanguage cfg)
                  @ builtin_text env (responseLanguage cfg))"
proof -
  obtain results tr3 where ex:
    "execute_tool_calls env st1 calls ([], tr1 @ [GenerateContent req]) = (results, tr3)"
    by (cases "execute_tool_calls env st1 calls ([], tr1 @ [GenerateContent req])")
  have names: "map tool results = map call_name calls"
    using execute_tool_calls_tools [of env st1 calls "[]" "tr1 @ [GenerateContent req]"] ex
    by simp
  have tr3: "tr3 = tr1 @ [GenerateContent req]
               @ (if mcpClient st1 = None then [] else map tool_event calls)"
    using execute_tool_calls_trace [of env st1 calls "[]" "tr1 @ [GenerateContent req]"] ex
    by simp
  have tr1: "model_calls tr1 = model_calls tr"
    using ensure_tools_keeps(3) [of env tr st] assms(2) by simp
  have end_trace:
    "fst (snd (chatWithTransaction env signature userMessage hist language (tr, st))) =
       tr3 @ [GenerateContent
                (finalizing_request env cfg (geminiTools st1) signature userMessage results)]"
    using assms ex
    by (simp add: chatWithTransaction_def Let_def split: sum.splits)
  have calls: "model_calls (tr3 @ [GenerateContent
                 (finalizing_request env cfg (geminiTools st1) signature userMessage results)]) =
               model_calls tr
                 @ [req, finalizing_request env cfg (geminiTools st1) signature userMessage results]"
    using tr1 tr3 by (simp add: model_calls_append model_calls_tool_events)
  have outcomes:
    "results = fst (execute_tool_calls env st1 calls ([], tr1 @ [GenerateContent req]))"
    using ex by simp
  have first_prompt: "last (contents req) =
             \<lparr>turn_role = ''user'',
              turn_parts = [getChatPrompt signature userMessage [] (responseLanguage cfg)]\<rparr>"
    using assms(4) by (simp add: drafting_request_def chat_request_def chat_contents_def)
  have whole: "finalPrompt env cfg signature userMessage results =
             to_primitive (builtin_text env)
                 (getChatPrompt signature userMessage [] (responseLanguage cfg))
               @ to_primitive (builtin_text env)
                   (finalPromptAddition (toolResultsText env results) (responseLanguage cfg))"
    by (simp add: finalPrompt_def js_plus_def)
  have entries: "toolResultsText env results =
             join ''\<newline>\<newline>''
               (map (\<lambda>r. ''Tool: '' @ tool r @ ''\<newline>Result: ''
                           @ (case result r of
                                None \<Rightarrow> ''undefined'' | Some v \<Rightarrow> stringify env v)) results)"
    by (simp add: toolResultsText_def tool_result_text_def [abs_def])
  have plain: "responseLanguage cfg \<notin> set Object_prototype_keys \<longrightarrow>
              (\<exists>prompt.
                 getChatPrompt signature userMessage [] (responseLanguage cfg) = Str prompt \<and>
                 finalPrompt env cfg signature userMessage results =
                   prompt
                     @ (if responseLanguage cfg = ''zh-CN''
                        then addition_zh_CN_1 @ toolResultsText env results @ addition_zh_CN_2
                        else if responseLanguage cfg = ''ja-JP''
                        then addition_ja_JP_1 @ toolResultsText env results @ addition_ja_JP_2
                        else if responseLanguage cfg = ''ko-KR''
                        then addition_ko_KR_1 @ toolResultsText env results @ addition_ko_KR_2
                        else addition_en_US_1 @ toolResultsText env results
                               @ addition_en_US_2))"
    by (simp add: whole chat_prompt_cases final_addition_cases)
  have inherited: "responseLanguage cfg \<in> set Object_prototype_keys \<longrightarrow>
              finalPrompt env cfg signature userMessage results =
                builtin_text env (responseLanguage cfg)
                  @ builtin_text env (responseLanguage cfg)"
    by (auto simp: whole chat_prompt_cases final_addition_cases Object_prototype_keys_def)
  have shape: "contents (finalizing_request env cfg (geminiTools st1) signature userMessage
                           results) =
             [\<lparr>turn_role = ''user'',
               turn_parts = [Str (finalPrompt env cfg signature userMessage results)]\<rparr>]"
    by (simp add: finalizing_request_def chat_request_def)
  have traces:
    "fst (snd (chatWithTransaction env signature userMessage hist language (tr, st))) =
       tr1 @ [GenerateContent req]
         @ (if mcpClient st1 = None then [] else map tool_event calls)
         @ [GenerateContent
              (finalizing_request env cfg (geminiTools st1) signature userMessage results)]"
    "model_calls
         (fst (snd (chatWithTransaction env signature userMessage hist language (tr, st)))) =
       model_calls tr
         @ [req, finalizing_request env cfg (geminiTools st1) signature userMessage results]"
    using tr3 end_trace calls by simp_all
  show ?thesis
    using names traces shape outcomes first_prompt whole entries plain inherited
    by (intro exI [of _ results] conjI)
qed

theorem chat_tool_round_witness:
  "\<exists>results.
     map tool results = map call_name [example_call, unknown_call] \<and>
     fst (snd (chatWithTransaction example_env ''SIG123'' ''What fee was paid?'' [] None
                 ([], configured))) =
       discovery_trace
         @ [GenerateContent (drafting_request example_settings (geminiTools discovered)
              ''SIG123'' ''What fee was paid?'' [])]
         @ (if mcpClient discovered = None then []
            else map tool_event [example_call, unknown_call])
         @ [GenerateContent (finalizing_request example_env example_settings
              (geminiTools discovered) ''SIG123'' ''What fee was paid?'' results)] \<and>
     model_calls
         (fst (snd (chatWithTransaction example_env ''SIG123'' ''What fee was paid?'' [] None
                      ([], configured)))) =
       model_calls []
         @ [drafting_request example_settings (geminiTools discovered)
              ''SIG123'' ''What fee was paid?'' [],
            finalizing_request example_env example_settings (geminiTools discovered)
              ''SIG123'' ''What fee was paid?'' results] \<and>
     contents (finalizing_request example_env example_settings (geminiTools discovered)
                 ''SIG123'' ''What fee was paid?'' results) =
       [\<lparr>turn_role = ''user'',
         turn_parts = [Str (finalPrompt example_env example_settings ''SIG123''
                              ''What fee was paid?'' results)]\<rparr>] \<and>
     results = example_results \<and>
     responseLanguage example_settings \<notin> set Object_prototype_keys \<and>
     finalPrompt example_env example_settings ''SIG123'' ''What fee was paid?'' results =
       chat_en_US_1 @ ''SIG123'' @ chat_en_US_2 @ chat_en_US_3 @ ''What fee was paid?''
         @ chat_en_US_4 @ addition_en_US_1 @ toolResultsText example_env results
         @ addition_en_US_2 \<and>
     toolResultsText example_env results =
       ''Tool: get_solana_transaction\<newline>Result: {fee: 5000}\<newline>\<newline>Tool: get_block\<newline>Result: undefined''"
proof -
  have h1: "genAI configured = Some \<lparr>apiKey = ''KEY''\<rparr>"
    by (simp add: configured_def)
  have h3: "settings discovered = Some example_settings"
    by (simp add: discovered_def configured_def)
  have h7: "[example_call, unknown_call] \<noteq> []"
    by simp
  have lang: "responseLanguage example_settings \<notin> set Object_prototype_keys"
    by (simp add: example_settings_def Object_prototype_keys_def)
  have en: "responseLanguage example_settings \<noteq> ''zh-CN''"
    "responseLanguage example_settings \<noteq> ''ja-JP''"
    "responseLanguage example_settings \<noteq> ''ko-KR''"
    by (simp_all add: example_settings_def)
  have prompt: "getChatPrompt ''SIG123'' ''What fee was paid?'' []
                  (responseLanguage example_settings) =
                Str (chat_en_US_1 @ ''SIG123'' @ chat_en_US_2 @ chat_en_US_3
                       @ ''What fee was paid?'' @ chat_en_US_4)"
    by (simp add: example_settings_def getChatPrompt_en_US)
  obtain results where r:
    "map tool results = map call_name [example_call, unknown_call]"
    "fst (snd (chatWithTransaction example_env ''SIG123'' ''What fee was paid?'' [] None
                 ([], configured))) =
       discovery_trace
         @ [GenerateContent (drafting_request example_settings (geminiTools discovered)
              ''SIG123'' ''What fee was paid?'' [])]
         @ (if mcpClient discovered = None then []
            else map tool_event [example_call, unknown_call])
         @ [GenerateContent (finalizing_request example_env example_settings
              (geminiTools discovered) ''SIG123'' ''What fee was paid?'' results)]"
    "model_calls
         (fst (snd (chatWithTransaction example_env ''SIG123'' ''What fee was paid?'' [] None
                      ([], configured)))) =
       model_calls []
         @ [drafting_request example_settings (geminiTools discovered)
              ''SIG123'' ''What fee was paid?'' [],
            finalizing_request example_env example_settings (geminiTools discovered)
              ''SIG123'' ''What fee was paid?'' results]"
    "contents (finalizing_request example_env example_settings (geminiTools discovered)
                 ''SIG123'' ''What fee was paid?'' results) =
       [\<lparr>turn_role = ''user'',
         turn_parts = [Str (finalPrompt example_env example_settings ''SIG123''
                              ''What fee was paid?'' results)]\<rparr>]"
    "results = fst (execute_tool_calls example_env discovered [example_call, unknown_call]
                      ([], discovery_trace
                         @ [GenerateContent (drafting_request example_settings
                              (geminiTools discovered) ''SIG123'' ''What fee was paid?'' [])]))"
    "toolResultsText example_env results =
       join ''\<newline>\<newline>''
         (map (\<lambda>r. ''Tool: '' @ tool r @ ''\<newline>Result: ''
                     @ (case result r of
                          None \<Rightarrow> ''undefined'' | Some v \<Rightarrow> stringify example_env v)) results)"
    "responseLanguage example_settings \<notin> set Object_prototype_keys \<longrightarrow>
       (\<exists>prompt.
          getChatPrompt ''SIG123'' ''What fee was paid?'' []
            (responseLanguage example_settings) = Str prompt \<and>
          finalPrompt example_env example_settings ''SIG123'' ''What fee was paid?'' results =
            prompt
              @ (if responseLanguage example_settings = ''zh-CN''
                 then addition_zh_CN_1 @ toolResultsText example_env results @ addition_zh_CN_2
                 else if responseLanguage example_settings = ''ja-JP''
                 then addition_ja_JP_1 @ toolResultsText example_env results @ addition_ja_JP_2
                 else if responseLanguage example_settings = ''ko-KR''
                 then addition_ko_KR_1 @ toolResultsText example_env results @ addition_ko_KR_2
                 else addition_en_US_1 @ toolResultsText example_env results
                        @ addition_en_US_2))"
    using chat_tool_round [where language = None,
        OF h1 ensure_tools_example h3 refl example_first_response example_first_calls h7]
    by blast
  have res: "results = example_results"
    by (simp only: r(5) example_tool_round fst_conv)
  have final: "finalPrompt example_env example_settings ''SIG123'' ''What fee was paid?''
                 results =
       chat_en_US_1 @ ''SIG123'' @ chat_en_US_2 @ chat_en_US_3 @ ''What fee was paid?''
         @ chat_en_US_4 @ addition_en_US_1 @ toolResultsText example_env results
         @ addition_en_US_2"
    using r(7) lang en prompt by auto
  have entries: "toolResultsText example_env results =
       ''Tool: get_solana_transaction\<newline>Result: {fee: 5000}\<newline>\<newline>Tool: get_block\<newline>Result: undefined''"
    using r(6) by (simp add: res example_results_def example_env_def)
  show ?thesis
    using r(1-4) res lang final entries
    by (intro exI [of _ results] conjI)
qed

text \<open>
  C2. The code evaluated where the claim fails: the model requests
  \<^verbatim>\<open>get_solana_transaction\<close> and the unknown tool \<^verbatim>\<open>get_block\<close>, and the call of
  \<^verbatim>\<open>get_block\<close> fails with the message \<^verbatim>\<open>Unknown tool\<close>. Both calls are executed and
  both outcomes are recorded, the failed one with its message; the follow-up prompt holds
  the payload of the call that succeeded, but for the failed call it holds
  \<^verbatim>\<open>Result: undefined\<close>, and the failure message occurs nowhere in it.
\<close>

theorem failed_call_message_missing_from_follow_up:
  "fst (snd (chatWithTransaction example_env ''SIG123'' ''What fee was paid?'' [] None
               ([], configured))) =
     discovery_trace
       @ [GenerateContent (drafting_request example_settings (geminiTools discovered)
            ''SIG123'' ''What fee was paid?'' []),
          McpCallTool ''get_solana_transaction'' ''{signature: SIG123}'',
          McpCallTool ''get_block'' ''{}'',
          GenerateContent (finalizing_request example_env example_settings
            (geminiTools discovered) ''SIG123'' ''What fee was paid?'' example_results)] \<and>
   example_results =
     [\<lparr>tool = ''get_solana_transaction'', result = Some ''{fee: 5000}'', error = None\<rparr>,
      \<lparr>tool = ''get_block'', result = None, error = Some ''Unknown tool''\<rparr>] \<and>
   contents (finalizing_request example_env example_settings (geminiTools discovered)
               ''SIG123'' ''What fee was paid?'' example_results) =
     [\<lparr>turn_role = ''user'',
       turn_parts =
         [Str (chat_en_US_1 @ ''SIG123'' @ chat_en_US_2 @ chat_en_US_3 @ ''What fee was paid?''
                 @ chat_en_US_4 @ addition_en_US_1
                 @ ''Tool: get_solana_transaction\<newline>Result: {fee: 5000}\<newline>\<newline>Tool: get_block\<newline>Result: undefined''
                 @ addition_en_US_2)]\<rparr>] \<and>
   \<not> sublist ''Unknown tool''
       (finalPrompt example_env example_settings ''SIG123'' ''What fee was paid?''
          example_results)"
proof -
  have h1: "genAI configured = Some \<lparr>apiKey = ''KEY''\<rparr>"
    by (simp add: configured_def)
  have h3: "settings discovered = Some example_settings"
    by (simp add: discovered_def configured_def)
  have h7: "[example_call, unknown_call] \<noteq> []"
    by simp
  have trace:
    "fst (snd (chatWithTransaction example_env ''SIG123'' ''What fee was paid?'' [] None
                 ([], configured))) =
       discovery_trace
         @ [GenerateContent (drafting_request example_settings (geminiTools discovered)
              ''SIG123'' ''What fee was paid?'' []),
            McpCallTool ''get_solana_transaction'' ''{signature: SIG123}'',
            McpCallTool ''get_block'' ''{}'',
            GenerateContent (finalizing_request example_env example_settings
              (geminiTools discovered) ''SIG123'' ''What fee was paid?'' example_results)]"
    using chat_tools [where language = None, OF h1 ensure_tools_example h3 refl
        example_first_response example_first_calls h7 example_tool_round refl]
    by (simp add: tool_event_def example_call_def unknown_call_def)
  have absent: "\<not> sublist ''Unknown tool''
      (finalPrompt example_env example_settings ''SIG123'' ''What fee was paid?''
         example_results)"
    unfolding example_finalPrompt by code_simp
  show ?thesis
    using trace absent
    by (simp add: example_results_def [symmetric] finalizing_request_def chat_request_def
          example_finalPrompt)
qed

text \<open>
  C3. When the model response of a chat exchange holds no tool-call request, the exchange
  ends after that one model call with the text of the response as the answer, and the
  conversation history of the page gains two turns: the user's question, then the
  assistant's answer.
\<close>

theorem chat_without_tool_calls:
  assumes "input \<noteq> []"
    and "transactionSignature ui = Some signature"
    and "signature \<noteq> []"
    and "genAI st = Some ai"
    and "ensure_tools env (tr, st) = (tr1, st1)"
    and "settings st1 = Some cfg"
    and "req = drafting_request cfg (geminiTools st1) signature input (conversationHistory ui)"
    and "generateContent env tr1 req = Inr resp"
    and "function_calls (response_parts resp) = []"
    and "answer = text_or [] (response_parts resp)"
  shows "sendChatMessage env None input (ui, tr, Some st) =
           (ui\<lparr>chatMessages := chatMessages ui @ [(''user'', input), (''ai'', answer)],
               conversationHistory := conversationHistory ui
                 @ [\<lparr>msg_role = user, msg_content = input\<rparr>,
                    \<lparr>msg_role = assistant, msg_content = answer\<rparr>]\<rparr>,
            tr1 @ [GenerateContent req], Some st1) \<and>
         model_calls (tr1 @ [GenerateContent req]) = model_calls tr @ [req] \<and>
         chatWithTransaction env signature input (conversationHistory ui) None (tr, st) =
           (Inr \<lparr>response = answer, toolCalls = [], toolResults = []\<rparr>,
            tr1 @ [GenerateContent req], st1)"
proof -
  have chat: "chatWithTransaction env signature input (conversationHistory ui) None (tr, st) =
                (Inr \<lparr>response = answer, toolCalls = [], toolResults = []\<rparr>,
                 tr1 @ [GenerateContent req], st1)"
    using chat_plain [OF assms(4) assms(5) assms(6)] assms(7-10) by simp
  have "model_calls tr1 = model_calls tr"
    using ensure_tools_keeps(3) [of env tr st] assms(5) by simp
  then show ?thesis
    using assms(1-3) chat
    by (simp add: sendChatMessage_def onMessage_chatWithTransaction_def addChatMessage_def
          falsy_def or_string_def succeeded_def model_calls_append)
qed

theorem chat_without_tool_calls_witness:
  "sendChatMessage plain_env None ''What fee was paid?'' (example_page, [], Some configured) =
     (example_page
        \<lparr>chatMessages := chatMessages example_page
           @ [(''user'', ''What fee was paid?''), (''ai'', ''A transfer of 1 SOL.'')],
         conversationHistory := conversationHistory example_page
           @ [\<lparr>msg_role = user, msg_content = ''What fee was paid?''\<rparr>,
              \<lparr>msg_role = assistant, msg_content = ''A transfer of 1 SOL.''\<rparr>]\<rparr>,
      discovery_trace
        @ [GenerateContent (drafting_request example_settings (geminiTools discovered)
             ''SIG123'' ''What fee was paid?'' (conversationHistory example_page))],
      Some discovered) \<and>
   model_calls
       (discovery_trace
          @ [GenerateContent (drafting_request example_settings (geminiTools discovered)
               ''SIG123'' ''What fee was paid?'' (conversationHistory example_page))]) =
     model_calls []
       @ [drafting_request example_settings (geminiTools discovered)
            ''SIG123'' ''What fee was paid?'' (conversationHistory example_page)] \<and>
   chatWithTransaction plain_env ''SIG123'' ''What fee was paid?''
       (conversationHistory example_page) None ([], configured) =
     (Inr \<lparr>response = ''A transfer of 1 SOL.'', toolCalls = [], toolResults = []\<rparr>,
      discovery_trace
        @ [GenerateContent (drafting_request example_settings (geminiTools discovered)
             ''SIG123'' ''What fee was paid?'' (conversationHistory example_page))],
      discovered)"
proof -
  have h1: "''What fee was paid?'' \<noteq> []"
    by simp
  have h2: "transactionSignature example_page = Some ''SIG123''"
    by (simp add: example_page_def)
  have h3: "''SIG123'' \<noteq> []"
    by simp
  have h4: "genAI configured = Some \<lparr>apiKey = ''KEY''\<rparr>"
    by (simp add: configured_def)
  have h6: "settings discovered = Some example_settings"
    by (simp add: discovered_def configured_def)
  have h9: "function_calls (response_parts
              (respond [\<lparr>part_text = Some ''A transfer of 1 SOL.'', functionCall = None\<rparr>])) = []"
    by (simp add: function_calls_respond List.map_filter_simps)
  have h10: "''A transfer of 1 SOL.'' =
               text_or [] (response_parts
                 (respond [\<lparr>part_text = Some ''A transfer of 1 SOL.'', functionCall = None\<rparr>]))"
    by (simp add: text_or_def response_parts_def respond_def)
  show ?thesis
    by (rule chat_without_tool_calls
          [OF h1 h2 h3 h4 ensure_tools_plain h6 refl plain_response h9 h10])
qed

text \<open>
  C4. An exchange has at most one tool-calling round. After the events of the lazy
  discovery, which hold no model call and no tool invocation, the events of an exchange
  are none, or one model call, or one model call, the tool invocations requested by its
  response, and one second model call. The exchange ends with that second call: whatever
  its response requests is not executed, so there are at most two model calls and at most
  one batch of tool invocations.
\<close>

theorem single_tool_round:
  "\<exists>before after.
     fst (snd (chatWithTransaction env signature userMessage hist language (tr, st))) =
       before @ after \<and>
     model_calls before = model_calls tr \<and>
     tool_invocations before = tool_invocations tr \<and>
     (after = [] \<or>
      (\<exists>req. after = [GenerateContent req]) \<or>
      (\<exists>req resp batch finalReq.
         generateContent env before req = Inr resp \<and>
         (batch = [] \<or> batch = function_calls (response_parts resp)) \<and>
         after = [GenerateContent req] @ map tool_event batch @ [GenerateContent finalReq])) \<and>
     length (model_calls (before @ after)) \<le> length (model_calls tr) + 2"
proof (cases "genAI st")
  case None
  then show ?thesis
    by (intro exI [of _ tr] exI [of _ "[]"]) (simp add: chat_not_configured)
next
  case (Some ai)
  obtain tr1 st1 where et: "ensure_tools env (tr, st) = (tr1, st1)"
    by (cases "ensure_tools env (tr, st)")
  have m: "model_calls tr1 = model_calls tr"
    using ensure_tools_keeps(3) [of env tr st] et by simp
  have t: "tool_invocations tr1 = tool_invocations tr"
    using ensure_tools_tool_invocations [of env tr st] et by simp
  show ?thesis
  proof (cases "settings st1")
    case None
    then show ?thesis
      using m t by (intro exI [of _ tr1] exI [of _ "[]"]) (simp add: chat_no_settings [OF Some et])
  next
    case cfg: (Some cfg)
    define req where "req = drafting_request cfg (geminiTools st1) signature userMessage hist"
    show ?thesis
    proof (cases "generateContent env tr1 req")
      case (Inl err)
      then have g: "generateContent env tr1
                      (drafting_request cfg (geminiTools st1) signature userMessage hist) = Inl err"
        by (simp add: req_def)
      show ?thesis
        using m t chat_first_call_fails [OF Some et cfg g]
        by (intro exI [of _ tr1] exI [of _ "[GenerateContent req]"])
           (simp add: req_def model_calls_append)
    next
      case (Inr resp)
      show ?thesis
      proof (cases "function_calls (response_parts resp) = []")
        case True
        have g: "generateContent env tr1
                   (drafting_request cfg (geminiTools st1) signature userMessage hist) = Inr resp"
          using Inr by (simp add: req_def)
        show ?thesis
          using m t chat_plain [OF Some et cfg g True]
          by (intro exI [of _ tr1] exI [of _ "[GenerateContent req]"])
             (simp add: req_def model_calls_append)
      next
        case False
        define calls where "calls = function_calls (response_parts resp)"
        obtain results tr3 where ex:
          "execute_tool_calls env st1 calls ([], tr1 @ [GenerateContent req]) = (results, tr3)"
          by (cases "execute_tool_calls env st1 calls ([], tr1 @ [GenerateContent req])")
        define finalReq where
          "finalReq = finalizing_request env cfg (geminiTools st1) signature userMessage results"
        define batch where "batch = (if mcpClient st1 = None then [] else calls)"
        have tr3: "tr3 = tr1 @ [GenerateContent req] @ map tool_event batch"
          using execute_tool_calls_trace [of env st1 calls "[]" "tr1 @ [GenerateContent req]"] ex
          by (simp add: batch_def)
        have "fst (snd (chatWithTransaction env signature userMessage hist language (tr, st))) =
                tr3 @ [GenerateContent finalReq]"
          using chat_tools [OF Some et cfg req_def Inr calls_def [symmetric] _ ex finalReq_def]
            False calls_def by simp
        then show ?thesis
          using m t tr3 Inr
          by (intro exI [of _ tr1]
                exI [of _ "[GenerateContent req] @ map tool_event batch @ [GenerateContent finalReq]"])
             (auto simp: model_calls_append model_calls_tool_events batch_def calls_def)
      qed
    qed
  qed
qed

text \<open>
  C5. The code evaluated where the claim fails: the assistant holds the discovered tool
  schema, and the summary prompt asks the model to use the available tools, yet the model
  call of the summarize operation carries no tool schema. The chat operation, in the same
  state, sends that schema with its first call.
\<close>

theorem summarize_omits_discovered_tools:
  "geminiTools discovered =
     Some [\<lparr>functionDeclarations =
              [\<lparr>decl_name = ''get_solana_transaction'', decl_description = [],
                parameters_type = ''object'', parameters_properties = [],
                parameters_required = []\<rparr>]\<rparr>] \<and>
   fst (snd (generateTransactionSummary plain_env ''SIG123'' ([], discovered))) =
     [GenerateContent example_summary_request] \<and>
   tools (config example_summary_request) = None \<and>
   tools (config example_summary_request) \<noteq> geminiTools discovered \<and>
   length (contents example_summary_request) = 1 \<and>
   sublist ''Use available tools if you need to fetch transaction data.'' summary_en_US_2 \<and>
   fst (snd (chatWithTransaction plain_env ''SIG123'' ''What fee was paid?'' [] None
               ([], discovered))) =
     [GenerateContent (drafting_request example_settings (geminiTools discovered) ''SIG123''
                         ''What fee was paid?'' [])] \<and>
   tools (config (drafting_request example_settings (geminiTools discovered) ''SIG123''
                    ''What fee was paid?'' [] :: string Request)) =
     geminiTools discovered"
proof -
  have schema: "geminiTools discovered =
     Some [\<lparr>functionDeclarations =
              [\<lparr>decl_name = ''get_solana_transaction'', decl_description = [],
                parameters_type = ''object'', parameters_properties = [],
                parameters_required = []\<rparr>]\<rparr>]"
    by (simp add: discovered_def convertMCPToolsToGemini_def example_tool_def or_string_def)
  have summarize:
    "fst (snd (generateTransactionSummary plain_env ''SIG123'' ([], discovered))) =
       [GenerateContent example_summary_request]"
    by (simp add: generateTransactionSummary_def discovered_def configured_def
          example_settings_def plain_env_def example_env_def getTransactionSummaryPrompt_en_US
          Let_def example_summary_request_def)
  have none: "tools (config example_summary_request) = None"
    "length (contents example_summary_request) = 1"
    by (simp_all add: example_summary_request_def)
  have asks: "sublist ''Use available tools if you need to fetch transaction data.''
                summary_en_US_2"
    unfolding summary_en_US_2_def by code_simp
  have h1: "genAI discovered = Some \<lparr>apiKey = ''KEY''\<rparr>"
    by (simp add: discovered_def configured_def)
  have h2: "ensure_tools plain_env ([], discovered) = ([], discovered)"
    by (simp add: ensure_tools_def schema)
  have h3: "settings discovered = Some example_settings"
    by (simp add: discovered_def configured_def)
  have chat: "fst (snd (chatWithTransaction plain_env ''SIG123'' ''What fee was paid?'' [] None
               ([], discovered))) =
     [GenerateContent (drafting_request example_settings (geminiTools discovered) ''SIG123''
                         ''What fee was paid?'' [])]"
    using chat_plain [where language = None, OF h1 h2 h3 plain_response plain_answer(1)]
    by simp
  have sent: "tools (config (drafting_request example_settings (geminiTools discovered)
                    ''SIG123'' ''What fee was paid?'' [] :: string Request)) =
     geminiTools discovered"
    by (simp add: drafting_request_def chat_request_def)
  show ?thesis
    using schema summarize none asks chat sent by simp
qed

text \<open>
  What the first model calls do send. The first model call of a chat exchange sends the
  constructed prompt as the last user turn, before it the whole history, turn by turn,
  with the roles \<^verbatim>\<open>user\<close> and \<^verbatim>\<open>model\<close>, and the tool schema that the assistant
  holds after the lazy discovery. The model call of the summarize operation sends the
  constructed prompt as a single user turn.
\<close>

lemma drafting_call_contents:
  assumes "genAI st = Some ai"
    and "settings st = Some cfg"
    and "ensure_tools env (tr, st) = (tr1, st1)"
    and "req = drafting_request cfg (geminiTools st1) signature userMessage hist"
  shows "(\<exists>rest. fst (snd (chatWithTransaction env signature userMessage hist language (tr, st))) =
                   tr1 @ GenerateContent req # rest) \<and>
         model_calls tr1 = model_calls tr \<and>
         contents req =
           map (\<lambda>msg. \<lparr>turn_role = (if msg_role msg = user then ''user'' else ''model''),
                        turn_parts = [Str (msg_content msg)]\<rparr>) hist
             @ [\<lparr>turn_role = ''user'',
                 turn_parts = [getChatPrompt signature userMessage [] (responseLanguage cfg)]\<rparr>] \<and>
         tools (config req) = geminiTools st1 \<and>
         (\<exists>sreq. fst (snd (generateTransactionSummary env signature (tr, st))) =
                   tr @ [GenerateContent sreq] \<and>
                 contents sreq =
                   [\<lparr>turn_role = ''user'',
                     turn_parts =
                       [getTransactionSummaryPrompt signature (responseLanguage cfg)]\<rparr>])"
proof -
  have cfg1: "settings st1 = Some cfg"
    using ensure_tools_keeps(1) [of env tr st] assms(2,3) by simp
  have m: "model_calls tr1 = model_calls tr"
    using ensure_tools_keeps(3) [of env tr st] assms(3) by simp
  have chat: "\<exists>rest. fst (snd (chatWithTransaction env signature userMessage hist language
                                   (tr, st))) = tr1 @ GenerateContent req # rest"
    using assms(1,3,4) cfg1
    by (auto simp: chatWithTransaction_def Let_def split: sum.splits prod.splits
          dest: execute_tool_calls_extends)
  have shape: "contents req =
           map (\<lambda>msg. \<lparr>turn_role = (if msg_role msg = user then ''user'' else ''model''),
                        turn_parts = [Str (msg_content msg)]\<rparr>) hist
             @ [\<lparr>turn_role = ''user'',
                 turn_parts = [getChatPrompt signature userMessage [] (responseLanguage cfg)]\<rparr>]"
       "tools (config req) = geminiTools st1"
    using assms(4) by (simp_all add: drafting_request_def chat_request_def chat_contents_def)
  have summ: "\<exists>sreq. fst (snd (generateTransactionSummary env signature (tr, st))) =
                   tr @ [GenerateContent sreq] \<and>
                 contents sreq =
                   [\<lparr>turn_role = ''user'',
                     turn_parts =
                       [getTransactionSummaryPrompt signature (responseLanguage cfg)]\<rparr>]"
    using assms(1,2)
    by (auto simp: generateTransactionSummary_def Let_def split: sum.splits)
  show ?thesis
    using chat m shape summ by blast
qed

lemma drafting_call_contents_example:
  "(\<exists>rest. fst (snd (chatWithTransaction plain_env ''SIG123'' ''What fee was paid?''
                        (conversationHistory example_page) None ([], configured))) =
             discovery_trace
               @ GenerateContent (drafting_request example_settings (geminiTools discovered)
                   ''SIG123'' ''What fee was paid?'' (conversationHistory example_page)) # rest) \<and>
   model_calls discovery_trace = model_calls [] \<and>
   contents (drafting_request example_settings (geminiTools discovered)
               ''SIG123'' ''What fee was paid?'' (conversationHistory example_page)) =
     map (\<lambda>msg. \<lparr>turn_role = (if msg_role msg = user then ''user'' else ''model''),
                  turn_parts = [Str (msg_content msg)]\<rparr>) (conversationHistory example_page)
       @ [\<lparr>turn_role = ''user'',
           turn_parts = [getChatPrompt ''SIG123'' ''What fee was paid?'' []
                           (responseLanguage example_settings)]\<rparr>] \<and>
   tools (config (drafting_request example_settings (geminiTools discovered)
                    ''SIG123'' ''What fee was paid?'' (conversationHistory example_page))) =
     geminiTools discovered \<and>
   (\<exists>sreq. fst (snd (generateTransactionSummary plain_env ''SIG123'' ([], configured))) =
             [] @ [GenerateContent sreq] \<and>
           contents sreq =
             [\<lparr>turn_role = ''user'',
               turn_parts =
                 [getTransactionSummaryPrompt ''SIG123'' (responseLanguage example_settings)]\<rparr>])"
proof -
  have h1: "genAI configured = Some \<lparr>apiKey = ''KEY''\<rparr>"
    by (simp add: configured_def)
  have h2: "settings configured = Some example_settings"
    by (simp add: configured_def)
  show ?thesis
    by (rule drafting_call_contents [OF h1 h2 ensure_tools_plain refl])
qed

text \<open>
  C6. When the first model call of a chat exchange fails, the background answers with a
  failure that carries the error message (or a default when the message is empty), the
  page shows that message as an assistant bubble, and the conversation history of the
  page is what it was before.
\<close>

theorem failed_first_call_keeps_history:
  assumes "input \<noteq> []"
    and "transactionSignature ui = Some signature"
    and "signature \<noteq> []"
    and "genAI st = Some ai"
    and "ensure_tools env (tr, st) = (tr1, st1)"
    and "settings st1 = Some cfg"
    and "req = drafting_request cfg (geminiTools st1) signature input (conversationHistory ui)"
    and "generateContent env tr1 req = Inl err"
    and "shown = (if err = [] then ''Unknown error occurred'' else err)"
  shows "onMessage_chatWithTransaction env
           \<lparr>request_action = ''chatWithTransaction'', request_signature = Some signature,
            request_message = Some input, request_history = Some (conversationHistory ui)\<rparr>
           (tr, Some st) =
           (\<lparr>success = False, data = None, response_error = Some shown\<rparr>,
            tr1 @ [GenerateContent req], Some st1) \<and>
         sendChatMessage env None input (ui, tr, Some st) =
           (ui\<lparr>chatMessages := chatMessages ui
                 @ [(''user'', input), (''ai'', errorResponse (currentLanguage ui) @ shown)]\<rparr>,
            tr1 @ [GenerateContent req], Some st1) \<and>
         conversationHistory (fst (sendChatMessage env None input (ui, tr, Some st))) =
           conversationHistory ui"
proof -
  have chat: "chatWithTransaction env signature input (conversationHistory ui) None (tr, st) =
                (Inl err, tr1 @ [GenerateContent req], st1)"
    using chat_first_call_fails [OF assms(4) assms(5) assms(6)] assms(7,8) by simp
  have reply: "onMessage_chatWithTransaction env
           \<lparr>request_action = ''chatWithTransaction'', request_signature = Some signature,
            request_message = Some input, request_history = Some (conversationHistory ui)\<rparr>
           (tr, Some st) =
           (\<lparr>success = False, data = None, response_error = Some shown\<rparr>,
            tr1 @ [GenerateContent req], Some st1)"
    using assms(1,3,9) chat
    by (simp add: onMessage_chatWithTransaction_def falsy_def or_string_def failed_def)
  have page: "sendChatMessage env None input (ui, tr, Some st) =
           (ui\<lparr>chatMessages := chatMessages ui
                 @ [(''user'', input), (''ai'', errorResponse (currentLanguage ui) @ shown)]\<rparr>,
            tr1 @ [GenerateContent req], Some st1)"
    using assms(1,2) reply
    by (simp add: sendChatMessage_def addChatMessage_def)
  show ?thesis
    using reply page by simp
qed

theorem failed_first_call_keeps_history_witness:
  "onMessage_chatWithTransaction offline_env
     \<lparr>request_action = ''chatWithTransaction'', request_signature = Some ''SIG123'',
      request_message = Some ''What fee was paid?'',
      request_history = Some (conversationHistory example_page)\<rparr>
     ([], Some configured) =
     (\<lparr>success = False, data = None, response_error = Some ''fetch failed''\<rparr>,
      discovery_trace
        @ [GenerateContent (drafting_request example_settings (geminiTools discovered)
             ''SIG123'' ''What fee was paid?'' (conversationHistory example_page))],
      Some discovered) \<and>
   sendChatMessage offline_env None ''What fee was paid?'' (example_page, [], Some configured) =
     (example_page
        \<lparr>chatMessages := chatMessages example_page
           @ [(''user'', ''What fee was paid?''),
              (''ai'', errorResponse (currentLanguage example_page) @ ''fetch failed'')]\<rparr>,
      discovery_trace
        @ [GenerateContent (drafting_request example_settings (geminiTools discovered)
             ''SIG123'' ''What fee was paid?'' (conversationHistory example_page))],
      Some discovered) \<and>
   conversationHistory
       (fst (sendChatMessage offline_env None ''What fee was paid?''
               (example_page, [], Some configured))) =
     conversationHistory example_page"
proof -
  have h1: "''What fee was paid?'' \<noteq> []"
    by simp
  have h2: "transactionSignature example_page = Some ''SIG123''"
    by (simp add: example_page_def)
  have h3: "''SIG123'' \<noteq> []"
    by simp
  have h4: "genAI configured = Some \<lparr>apiKey = ''KEY''\<rparr>"
    by (simp add: configured_def)
  have h6: "settings discovered = Some example_settings"
    by (simp add: discovered_def configured_def)
  have h9: "''fetch failed'' = (if ''fetch failed'' = [] then ''Unknown error occurred''
                                else ''fetch failed'')"
    by simp
  show ?thesis
    by (rule failed_first_call_keeps_history
          [OF h1 h2 h3 h4 ensure_tools_offline h6 refl offline_response h9])
qed

text \<open>
  C7. While the model client is missing, the summarize and the chat operation fail with
  a configuration error and the trace of outside calls stays as it was: no call to the
  model or to the tool service is made. The message handlers answer with that error.
  The client stays missing when the assistant is initialized from settings without a
  credential.
\<close>

theorem not_configured_fails_before_any_call:
  assumes "genAI st = None"
  shows "generateTransactionSummary env signature (tr, st) =
           (Inl ''Gemini AI not initialized. Please configure your API key.'', tr, st) \<and>
         chatWithTransaction env signature userMessage hist language (tr, st) =
           (Inl ''Gemini AI not initialized'', tr, st) \<and>
         onMessage_getTransactionSummary env
           \<lparr>request_action = ''getTransactionSummary'', request_signature = Some (c # cs),
            request_message = None, request_history = None\<rparr> (tr, Some st) =
           (\<lparr>success = False, data = None,
             response_error =
               Some ''Gemini AI not initialized. Please configure your API key.''\<rparr>,
            tr, Some st) \<and>
         onMessage_chatWithTransaction env
           \<lparr>request_action = ''chatWithTransaction'', request_signature = Some (c # cs),
            request_message = Some (m # ms), request_history = Some hist\<rparr> (tr, Some st) =
           (\<lparr>success = False, data = None,
             response_error = Some ''Gemini AI not initialized''\<rparr>,
            tr, Some st) \<and>
         genAI (initializeGemini env (st\<lparr>settings := None\<rparr>)) = None \<and>
         genAI (initializeGemini env (st\<lparr>settings := Some (cfg\<lparr>geminiApiKey := []\<rparr>)\<rparr>)) = None"
  using assms
  by (simp add: generateTransactionSummary_def chat_not_configured
        onMessage_getTransactionSummary_def onMessage_chatWithTransaction_def falsy_def
        or_string_def failed_def initializeGemini_def)

theorem not_configured_fails_before_any_call_witness:
  "init no_key_env ([], new_SolscanAIAssistant) = ([StorageGet], unconfigured) \<and>
   genAI unconfigured = None \<and>
   generateTransactionSummary no_key_env ''SIG123'' ([StorageGet], unconfigured) =
     (Inl ''Gemini AI not initialized. Please configure your API key.'',
      [StorageGet], unconfigured) \<and>
   chatWithTransaction no_key_env ''SIG123'' ''What fee was paid?'' [] None
       ([StorageGet], unconfigured) =
     (Inl ''Gemini AI not initialized'', [StorageGet], unconfigured) \<and>
   onMessage_getTransactionSummary no_key_env
     \<lparr>request_action = ''getTransactionSummary'', request_signature = Some ''SIG123'',
      request_message = None, request_history = None\<rparr> ([StorageGet], Some unconfigured) =
     (\<lparr>success = False, data = None,
       response_error = Some ''Gemini AI not initialized. Please configure your API key.''\<rparr>,
      [StorageGet], Some unconfigured) \<and>
   onMessage_chatWithTransaction no_key_env
     \<lparr>request_action = ''chatWithTransaction'', request_signature = Some ''SIG123'',
      request_message = Some ''What fee was paid?'', request_history = Some []\<rparr>
     ([StorageGet], Some unconfigured) =
     (\<lparr>success = False, data = None, response_error = Some ''Gemini AI not initialized''\<rparr>,
      [StorageGet], Some unconfigured) \<and>
   genAI (initializeGemini no_key_env (unconfigured\<lparr>settings := None\<rparr>)) = None \<and>
   genAI (initializeGemini no_key_env
            (unconfigured\<lparr>settings := Some (example_settings\<lparr>geminiApiKey := []\<rparr>)\<rparr>)) = None"
proof -
  have h: "genAI unconfigured = None"
    by (simp add: unconfigured_def)
  show ?thesis
    using init_no_key h
      not_configured_fails_before_any_call [OF h, where env = no_key_env
        and signature = "''SIG123''" and tr = "[StorageGet]"
        and userMessage = "''What fee was paid?''" and hist = "[]" and language = None
        and c = "CHR ''S''" and cs = "''IG123''" and m = "CHR ''W''"
        and ms = "''hat fee was paid?''" and cfg = example_settings]
    by simp
qed

text \<open>
  C8. A discovery that fails, was never configured or finds no tool is not fatal. The
  conversion of a missing or empty tool list is "no tool schema", not an error value.
  When the assistant holds no schema and the lazy discovery of a chat exchange cannot
  run (no endpoint, or an earlier attempt left a client handle), fails (bad URL,
  \<^verbatim>\<open>connect\<close> or \<^verbatim>\<open>listTools\<close> throws) or finds nothing, the assistant still holds no
  schema, the first model call is made without tools, and a response without tool-call
  requests gives the text of that response as the answer.
\<close>

theorem discovery_failure_is_not_fatal:
  assumes "genAI st = Some ai"
    and "settings st = Some cfg"
    and "geminiTools st = None"
    and "mcpUrl cfg = [] \<or> mcpClient st \<noteq> None \<or> \<not> new_URL env (mcpUrl cfg)
         \<or> connect env tr (mcpUrl cfg) \<noteq> None
         \<or> (\<exists>err. listTools env (tr @ [McpConnect (mcpUrl cfg)]) = Inl err)
         \<or> listTools env (tr @ [McpConnect (mcpUrl cfg)]) = Inr None
         \<or> listTools env (tr @ [McpConnect (mcpUrl cfg)]) = Inr (Some [])"
    and "ensure_tools env (tr, st) = (tr1, st1)"
    and "req = drafting_request cfg None signature userMessage hist"
    and "generateContent env tr1 req = Inr resp"
    and "function_calls (response_parts resp) = []"
  shows "convertMCPToolsToGemini (None :: 'j MCPTool list option) = None \<and>
         convertMCPToolsToGemini (Some ([] :: 'j MCPTool list)) = None \<and>
         geminiTools st1 = None \<and>
         tools (config req) = None \<and>
         chatWithTransaction env signature userMessage hist language (tr, st) =
           (Inr \<lparr>response = text_or [] (response_parts resp), toolCalls = [], toolResults = []\<rparr>,
            tr1 @ [GenerateContent req], st1)"
proof -
  have none: "geminiTools st1 = None"
    using loadMCPTools_no_tools [OF assms(2) assms(3) assms(4)] assms(3,5)
    by (simp add: ensure_tools_def)
  have cfg1: "settings st1 = Some cfg"
    using ensure_tools_keeps(1) [of env tr st] assms(2,5) by simp
  have g: "generateContent env tr1
             (drafting_request cfg (geminiTools st1) signature userMessage hist) = Inr resp"
    using assms(6,7) none by simp
  have "chatWithTransaction env signature userMessage hist language (tr, st) =
           (Inr \<lparr>response = text_or [] (response_parts resp), toolCalls = [], toolResults = []\<rparr>,
            tr1 @ [GenerateContent req], st1)"
    using chat_plain [OF assms(1) assms(5) cfg1 g assms(8)] assms(6) none by simp
  then show ?thesis
    using none assms(6)
    by (simp add: convertMCPToolsToGemini_def drafting_request_def chat_request_def)
qed

theorem discovery_failure_is_not_fatal_witness:
  "convertMCPToolsToGemini (None :: string MCPTool list option) = None \<and>
   convertMCPToolsToGemini (Some ([] :: string MCPTool list)) = None \<and>
   geminiTools discovered_nothing = None \<and>
   tools (config (drafting_request example_settings None ''SIG123'' ''What fee was paid?'' []
            :: string Request)) = None \<and>
   chatWithTransaction no_tools_env ''SIG123'' ''What fee was paid?'' [] None ([], configured) =
     (Inr \<lparr>response = ''A transfer of 1 SOL.'', toolCalls = [], toolResults = []\<rparr>,
      discovery_trace
        @ [GenerateContent (drafting_request example_settings None ''SIG123''
             ''What fee was paid?'' [])],
      discovered_nothing)"
proof -
  have h1: "genAI configured = Some \<lparr>apiKey = ''KEY''\<rparr>"
    by (simp add: configured_def)
  have h2: "settings configured = Some example_settings"
    by (simp add: configured_def)
  have h3: "geminiTools configured = None"
    by (simp add: configured_def)
  have h4: "mcpUrl example_settings = [] \<or> mcpClient configured \<noteq> None
         \<or> \<not> new_URL no_tools_env (mcpUrl example_settings)
         \<or> connect no_tools_env [] (mcpUrl example_settings) \<noteq> None
         \<or> (\<exists>err. listTools no_tools_env ([] @ [McpConnect (mcpUrl example_settings)]) = Inl err)
         \<or> listTools no_tools_env ([] @ [McpConnect (mcpUrl example_settings)]) = Inr None
         \<or> listTools no_tools_env ([] @ [McpConnect (mcpUrl example_settings)]) = Inr (Some [])"
    by (simp add: no_tools_env_def)
  show ?thesis
    using discovery_failure_is_not_fatal
      [where language = None, OF h1 h2 h3 h4 ensure_tools_no_tools refl no_tools_response
        plain_answer(1)]
    by (simp add: plain_answer(2))
qed

text \<open>
  C9. The code evaluated where the claim fails: the language code \<^verbatim>\<open>constructor\<close> is
  not in the table, yet both prompt builders return the member of \<^verbatim>\<open>Object.prototype\<close>
  of that name, which is not a string, and not the English template that they return
  for \<^verbatim>\<open>en-US\<close>.
\<close>

theorem prompt_builders_inherited_key:
  "getTransactionSummaryPrompt ''SIG123'' ''constructor'' = Builtin ''constructor'' \<and>
   getChatPrompt ''SIG123'' ''What fee was paid?'' [] ''constructor'' = Builtin ''constructor'' \<and>
   getTransactionSummaryPrompt ''SIG123'' ''en-US'' =
     Str (summary_en_US_1 @ ''SIG123'' @ summary_en_US_2) \<and>
   getChatPrompt ''SIG123'' ''What fee was paid?'' [] ''en-US'' =
     Str (chat_en_US_1 @ ''SIG123'' @ chat_en_US_2 @ chat_en_US_3 @ ''What fee was paid?''
            @ chat_en_US_4)"
  by (simp add: summary_prompt_cases chat_prompt_cases Object_prototype_keys_def)

text \<open>
  C10. A discovery attempt that gets as far as constructing the client stores the handle
  before it contacts the tool service, and keeps it when \<^verbatim>\<open>connect\<close> or
  \<^verbatim>\<open>listTools\<close> fails; the tool list and the schema are then what they were. From
  then on, in any environment, a discovery call and the lazy discovery of a chat exchange
  return at once, and the settings reload, the initialization, a chat exchange and a
  summary leave the handle, the tool list and the schema alone; the settings reload and
  the initialization only read the storage. The reload-tool-registry operation clears
  the three fields and contacts the tool service again.
\<close>

theorem failed_discovery_is_latched:
  assumes "settings st = Some cfg"
    and "mcpUrl cfg \<noteq> []"
    and "mcpClient st = None"
    and "new_URL env (mcpUrl cfg)"
    and "loadMCPTools env (tr, st) = (tr1, st1)"
  shows "mcpClient st1 \<noteq> None \<and>
         (\<exists>rest. tr1 = tr @ McpConnect (mcpUrl cfg) # rest) \<and>
         (connect env tr (mcpUrl cfg) \<noteq> None
            \<or> (\<exists>err. listTools env (tr @ [McpConnect (mcpUrl cfg)]) = Inl err) \<longrightarrow>
          mcpTools st1 = mcpTools st \<and> geminiTools st1 = geminiTools st) \<and>
         loadMCPTools env' (tr', st1) = (tr', st1) \<and>
         ensure_tools env' (tr', st1) = (tr', st1) \<and>
         fst (snd (reloadSettings env' (tr', st1))) = tr' @ [StorageGet] \<and>
         same_registry st1 (snd (snd (reloadSettings env' (tr', st1)))) \<and>
         fst (init env' (tr', st1)) = tr' @ [StorageGet] \<and>
         same_registry st1 (snd (init env' (tr', st1))) \<and>
         snd (snd (chatWithTransaction env' signature userMessage hist language (tr', st1))) =
           st1 \<and>
         snd (snd (generateTransactionSummary env' signature (tr', st1))) = st1 \<and>
         reloadMCPTools env' (tr', st1) =
           loadMCPTools env'
             (tr', st1\<lparr>mcpClient := None, mcpTools := None, geminiTools := None\<rparr>) \<and>
         (new_URL env' (mcpUrl cfg) \<longrightarrow>
            (\<exists>rest. fst (reloadMCPTools env' (tr', st1)) = tr' @ McpConnect (mcpUrl cfg) # rest))"
proof -
  have client: "mcpClient st1 \<noteq> None"
    using loadMCPTools_attempt(1) [OF assms(1-4), of tr] assms(5) by simp
  have contact: "\<exists>rest. tr1 = tr @ McpConnect (mcpUrl cfg) # rest"
    using loadMCPTools_attempt(2) [OF assms(1-4), of tr] assms(5) by simp
  have same: "connect env tr (mcpUrl cfg) \<noteq> None
            \<or> (\<exists>err. listTools env (tr @ [McpConnect (mcpUrl cfg)]) = Inl err) \<longrightarrow>
          mcpTools st1 = mcpTools st \<and> geminiTools st1 = geminiTools st"
    using loadMCPTools_attempt(3) [OF assms(1-4), of tr] assms(5) by auto
  have again: "loadMCPTools env' (tr', st1) = (tr', st1)"
    using client by (rule loadMCPTools_latched)
  then have lazy: "ensure_tools env' (tr', st1) = (tr', st1)"
    by (simp add: ensure_tools_def)
  have chat: "snd (snd (chatWithTransaction env' signature userMessage hist language
                          (tr', st1))) = st1"
    using lazy by (simp add: chat_final_state)
  have cfg1: "settings st1 = Some cfg"
    using loadMCPTools_keeps(1) [of env tr st] assms(1,5) by simp
  have reload: "reloadMCPTools env' (tr', st1) =
           loadMCPTools env'
             (tr', st1\<lparr>mcpClient := None, mcpTools := None, geminiTools := None\<rparr>)"
    by (simp add: reloadMCPTools_def)
  have fresh: "new_URL env' (mcpUrl cfg) \<longrightarrow>
            (\<exists>rest. fst (reloadMCPTools env' (tr', st1)) = tr' @ McpConnect (mcpUrl cfg) # rest)"
  proof
    assume url: "new_URL env' (mcpUrl cfg)"
    have "\<exists>rest. fst (loadMCPTools env'
             (tr', st1\<lparr>mcpClient := None, mcpTools := None, geminiTools := None\<rparr>)) =
           tr' @ McpConnect (mcpUrl cfg) # rest"
      by (rule loadMCPTools_attempt(2)) (simp_all add: cfg1 assms(2) url)
    then show "\<exists>rest. fst (reloadMCPTools env' (tr', st1)) = tr' @ McpConnect (mcpUrl cfg) # rest"
      by (simp add: reload)
  qed
  show ?thesis
    using client contact same again lazy chat reloadSettings_latched [OF client, of env' tr']
      init_latched [OF client, of env' tr'] reload fresh
    by (simp add: summary_final_state)
qed

theorem failed_discovery_is_latched_witness:
  "mcpClient latched \<noteq> None \<and>
   (\<exists>rest. ([McpConnect ''https://mcp.example/mcp''] :: string trace) =
             [] @ McpConnect (mcpUrl example_settings) # rest) \<and>
   connect no_service_env [] (mcpUrl example_settings) \<noteq> None \<and>
   mcpTools latched = mcpTools configured \<and>
   geminiTools latched = geminiTools configured \<and>
   loadMCPTools example_env ([McpConnect ''https://mcp.example/mcp''], latched) =
     ([McpConnect ''https://mcp.example/mcp''], latched) \<and>
   ensure_tools example_env ([McpConnect ''https://mcp.example/mcp''], latched) =
     ([McpConnect ''https://mcp.example/mcp''], latched) \<and>
   fst (snd (reloadSettings example_env ([McpConnect ''https://mcp.example/mcp''], latched))) =
     [McpConnect ''https://mcp.example/mcp''] @ [StorageGet] \<and>
   same_registry latched
     (snd (snd (reloadSettings example_env
                  ([McpConnect ''https://mcp.example/mcp''], latched)))) \<and>
   fst (init example_env ([McpConnect ''https://mcp.example/mcp''], latched)) =
     [McpConnect ''https://mcp.example/mcp''] @ [StorageGet] \<and>
   same_registry latched
     (snd (init example_env ([McpConnect ''https://mcp.example/mcp''], latched))) \<and>
   snd (snd (chatWithTransaction example_env ''SIG123'' ''What fee was paid?'' [] None
               ([McpConnect ''https://mcp.example/mcp''], latched))) = latched \<and>
   snd (snd (generateTransactionSummary example_env ''SIG123''
               ([McpConnect ''https://mcp.example/mcp''], latched))) = latched \<and>
   reloadMCPTools example_env ([McpConnect ''https://mcp.example/mcp''], latched) =
     loadMCPTools example_env
       ([McpConnect ''https://mcp.example/mcp''],
        latched\<lparr>mcpClient := None, mcpTools := None, geminiTools := None\<rparr>) \<and>
   new_URL example_env (mcpUrl example_settings) \<and>
   (\<exists>rest. fst (reloadMCPTools example_env
                  ([McpConnect ''https://mcp.example/mcp''], latched)) =
            [McpConnect ''https://mcp.example/mcp'']
              @ McpConnect (mcpUrl example_settings) # rest)"
proof -
  have h1: "settings configured = Some example_settings"
    by (simp add: configured_def)
  have h2: "mcpUrl example_settings \<noteq> []"
    by (simp add: example_settings_def)
  have h3: "mcpClient configured = None"
    by (simp add: configured_def)
  have h4: "new_URL no_service_env (mcpUrl example_settings)"
    by (simp add: no_service_env_def plain_env_def example_env_def)
  have refused: "connect no_service_env [] (mcpUrl example_settings) \<noteq> None"
    by (simp add: no_service_env_def)
  have url: "new_URL example_env (mcpUrl example_settings)"
    by (simp add: example_env_def)
  show ?thesis
    using refused url
      failed_discovery_is_latched [OF h1 h2 h3 h4 loadMCPTools_no_service,
        where env' = example_env and tr' = "[McpConnect ''https://mcp.example/mcp'']"
        and signature = "''SIG123''" and userMessage = "''What fee was paid?''"
        and hist = "[]" and language = None]
    by blast
qed

end
